theory Spec2Isabelle
  imports Complex_Main "HOL-Library.Multiset"
begin

section \<open>Python values\<close>

text \<open>
  The server is Python. Its integers are unbounded (\<open>int\<close>). Its floats are IEEE
  doubles: a finite double is modelled by the real number it denotes, and the three
  special values are kept, because \<open>json.loads\<close> accepts \<open>NaN\<close>, \<open>Infinity\<close> and
  \<open>-Infinity\<close> and a comparison with NaN is always false. Where the code computes
  with doubles, each result is rounded to the nearest double (\<open>to_double\<close> below).
\<close>

datatype pyfloat = Fin real | PInf | NInf | NaN

text \<open>\<open>a > b\<close> on Python floats.\<close>

fun float_gt :: "pyfloat \<Rightarrow> pyfloat \<Rightarrow> bool" where
  "float_gt NaN b = False"
| "float_gt a NaN = False"
| "float_gt (Fin x) (Fin y) = (y < x)"
| "float_gt (Fin x) PInf = False"
| "float_gt (Fin x) NInf = True"
| "float_gt PInf PInf = False"
| "float_gt PInf b = True"
| "float_gt NInf b = False"

text \<open>\<open>a <= b\<close> on Python floats.\<close>

fun float_le :: "pyfloat \<Rightarrow> pyfloat \<Rightarrow> bool" where
  "float_le NaN b = False"
| "float_le a NaN = False"
| "float_le (Fin x) (Fin y) = (x \<le> y)"
| "float_le (Fin x) PInf = True"
| "float_le (Fin x) NInf = False"
| "float_le NInf b = True"
| "float_le PInf PInf = True"
| "float_le PInf b = False"

text \<open>
  The values \<open>json.loads\<close> produces: \<open>None\<close>, \<open>bool\<close>, \<open>int\<close>, \<open>float\<close>, \<open>str\<close>,
  \<open>list\<close> and \<open>dict\<close> with string keys (kept as an association list, one pair for
  each key).
\<close>

datatype pyval =
    PNone
  | PBool bool
  | PInt int
  | PFloat pyfloat
  | PStr string
  | PList "pyval list"
  | PDict "(string \<times> pyval) list"

text \<open>
  A dict key is a hashable value, and two keys are the same key when they are equal by
  \<open>==\<close>: \<open>1\<close>, \<open>1.0\<close> and \<open>True\<close> are one key (numbers compare by value), and the
  NaN that \<open>json.loads\<close> returns is one object of the \<open>json\<close> module, found again by
  identity. Lists and dicts are unhashable: \<open>dict.get\<close> raises \<open>TypeError\<close> on them.
  The model keeps a key by its equality class and does not track which of the equal
  objects was inserted first.
\<close>

datatype pykey = KNone | KNum pyfloat | KStr string

fun hashable :: "pyval \<Rightarrow> pykey option" where
  "hashable PNone = Some KNone"
| "hashable (PBool b) = Some (KNum (Fin (if b then 1 else 0)))"
| "hashable (PInt i) = Some (KNum (Fin (of_int i)))"
| "hashable (PFloat f) = Some (KNum f)"
| "hashable (PStr s) = Some (KStr s)"
| "hashable (PList xs) = None"
| "hashable (PDict kvs) = None"

text \<open>
  A Python dict keeps its keys in insertion order: \<open>d[k] = v\<close> replaces the value of an
  existing key in place and appends a new key at the end.
\<close>

definition dict_get :: "('k \<times> 'v) list \<Rightarrow> 'k \<Rightarrow> 'v option" where
  "dict_get d k = map_of d k"

primrec dict_set :: "('k \<times> 'v) list \<Rightarrow> 'k \<Rightarrow> 'v \<Rightarrow> ('k \<times> 'v) list" where
  "dict_set [] k v = [(k, v)]"
| "dict_set (p # ps) k v = (if fst p = k then (k, v) # ps else p # dict_set ps k v)"

section \<open>LeaderboardEngine\<close>

text \<open>The dict stored per player: \<open>{"score": score, "name": name, "ts": timestamp}\<close>.\<close>

record stored =
  score :: int
  name :: pyval
  ts :: pyfloat

text \<open>The result of \<open>update\<close>: \<open>{"status": ..., "current_score": ...}\<close>.\<close>

record update_result =
  status :: string
  current_score :: int

text \<open>
  The engine's fields. \<open>_lock\<close> is left out: every method body runs under it, so each
  method is one atomic step on this state.
\<close>

record engine =
  scores :: "(pykey \<times> stored) list"
  update_count :: int
  start_time :: real

text \<open>\<open>__init__\<close>, at the reading \<open>t\<close> of \<open>time.time()\<close>.\<close>

definition init :: "real \<Rightarrow> engine" where
  "init t = \<lparr>scores = [], update_count = 0, start_time = t\<rparr>"

text \<open>The representation invariant of the dict: no key twice.\<close>

definition wf :: "engine \<Rightarrow> bool" where
  "wf e = distinct (map fst (scores e))"

definition update ::
  "pykey \<Rightarrow> pyval \<Rightarrow> int \<Rightarrow> pyfloat \<Rightarrow> engine \<Rightarrow> update_result \<times> engine" where
  "update pid nm sc timestamp e =
     (let existing = dict_get (scores e) pid in
      if (case existing of None \<Rightarrow> True | Some old \<Rightarrow> float_gt timestamp (ts old))
      then (\<lparr>status = ''accepted'', current_score = sc\<rparr>,
            e\<lparr>scores := dict_set (scores e) pid \<lparr>score = sc, name = nm, ts = timestamp\<rparr>,
              update_count := update_count e + 1\<rparr>)
      else (\<lparr>status = ''rejected'', current_score = score (the existing)\<rparr>, e))"

text \<open>One row of a ranking: \<open>{"rank": ..., "player_id": ..., "name": ..., "score": ...}\<close>.\<close>

record entry =
  rank :: int
  player_id :: pykey
  e_name :: pyval
  e_score :: int

text \<open>\<open>xs[:n]\<close>: a negative \<open>n\<close> counts from the end.\<close>

definition slice_to :: "'a list \<Rightarrow> int \<Rightarrow> 'a list" where
  "slice_to xs n =
     (if 0 \<le> n then take (nat n) xs else take (nat (int (length xs) + n)) xs)"

text \<open>
  \<open>sorted(rows, key=lambda x: x["score"], reverse=True)\<close>. Python sorts stably, also
  with \<open>reverse=True\<close>: rows of equal score keep the order of the dict. Insertion sort
  on the negated score does the same.
\<close>

fun row :: "pykey \<times> stored \<Rightarrow> entry" where
  "row (pid, d) = \<lparr>rank = 0, player_id = pid, e_name = name d, e_score = score d\<rparr>"

definition ranked :: "engine \<Rightarrow> entry list" where
  "ranked e = sort_key (\<lambda>x. - e_score x) (map row (scores e))"

text \<open>\<open>for i, e in enumerate(rows, 1): e["rank"] = i\<close>.\<close>

definition number :: "entry list \<Rightarrow> entry list" where
  "number rows = map (\<lambda>(i, x). x\<lparr>rank := int i\<rparr>) (enumerate 1 rows)"

definition get_top :: "int \<Rightarrow> engine \<Rightarrow> entry list \<times> engine" where
  "get_top n e = (number (slice_to (ranked e) n), e)"

definition get_player :: "pykey \<Rightarrow> engine \<Rightarrow> stored option \<times> engine" where
  "get_player pid e = (dict_get (scores e) pid, e)"

text \<open>
  Arithmetic on doubles. The result of \<open>+\<close>, \<open>-\<close>, \<open>*\<close> and \<open>/\<close> is the exact result
  rounded to the nearest double, a tie going to the even significand: 53 significant
  bits, and below \<open>2 ^ -1022\<close> the fixed step \<open>2 ^ -1074\<close> of the subnormal numbers.
  Overflow is not modelled: \<open>to_double\<close> is the rounding of IEEE 754 for every real
  of magnitude below \<open>2 ^ 1023\<close>, and what is proved below of the two rounded figures
  of \<open>stats\<close> is stated inside this range.

  \<open>exponent x\<close> is the integer \<open>e\<close> with \<open>2 ^ e \<le> \<bar>x\<bar> < 2 ^ (e + 1)\<close>, found by halving
  and doubling; 1100 steps reach every exponent that is not clamped to \<open>-1022\<close> anyway.
\<close>

definition round_half_even :: "real \<Rightarrow> int" where
  "round_half_even x =
     (let f = \<lfloor>x\<rfloor>; d = x - of_int f
      in if d < 1 / 2 then f else if 1 / 2 < d then f + 1 else if even f then f else f + 1)"

definition pow2 :: "int \<Rightarrow> real" where
  "pow2 k = (if 0 \<le> k then 2 ^ nat k else 1 / 2 ^ nat (- k))"

fun exponent_aux :: "nat \<Rightarrow> real \<Rightarrow> int" where
  "exponent_aux 0 x = 0"
| "exponent_aux (Suc n) x =
     (if 2 \<le> x then exponent_aux n (x / 2) + 1
      else if x < 1 then exponent_aux n (2 * x) - 1
      else 0)"

definition exponent :: "real \<Rightarrow> int" where
  "exponent x = exponent_aux 1100 \<bar>x\<bar>"

definition to_double :: "real \<Rightarrow> real" where
  "to_double x =
     (if x = 0 then 0
      else (let e = max (exponent x) (- 1022)
            in of_int (round_half_even (x * pow2 (52 - e))) * pow2 (e - 52)))"

definition fsub :: "real \<Rightarrow> real \<Rightarrow> real" where
  "fsub a b = to_double (a - b)"

definition fmul :: "real \<Rightarrow> real \<Rightarrow> real" where
  "fmul a b = to_double (a * b)"

definition fdiv :: "real \<Rightarrow> real \<Rightarrow> real" where
  "fdiv a b = to_double (a / b)"

text \<open>
  \<open>round(x, nd)\<close> on a float: the exact value of \<open>x\<close> is rounded to \<open>nd\<close> decimals, a
  tie going to the even neighbour, and the decimal number found is read back as the
  nearest double.
\<close>

definition py_round :: "real \<Rightarrow> nat \<Rightarrow> real" where
  "py_round x nd = to_double (of_int (round_half_even (x * 10 ^ nd)) / 10 ^ nd)"

record stats_d =
  total_players :: int
  total_updates :: int
  uptime_seconds :: real
  updates_per_sec :: real

text \<open>
  \<open>stats\<close>, at the reading \<open>tm\<close> of \<open>time.time()\<close>. The subtraction and the division are
  those of doubles; \<open>update_count\<close> becomes a double for the division (when \<open>max\<close>
  returns the integer 1, the division of integers rounds the same quotient once).
\<close>

definition stats :: "real \<Rightarrow> engine \<Rightarrow> stats_d \<times> engine" where
  "stats tm e =
     (let elapsed = fsub tm (start_time e)
      in (\<lparr>total_players = int (length (scores e)),
           total_updates = update_count e,
           uptime_seconds = py_round elapsed 2,
           updates_per_sec =
             py_round (fdiv (to_double (of_int (update_count e))) (max elapsed 1)) 2\<rparr>, e))"

section \<open>The methods that hand out dicts, on a heap\<close>

text \<open>
  In Python the stored records and the rows of a ranking are dict objects, and
  \<open>get_top\<close> writes the ranks into rows by assignment; \<open>get_player\<close> returns the
  stored dict itself. The functions above take records and rows as values. To account
  for the aliasing, these two methods are modelled once more on an explicit heap: dict
  objects at addresses, with \<open>_scores\<close> mapping a player to the address of its record.

  A dict object with the keys the engine uses; a key that the dict does not have is
  \<open>None\<close>. Records and rows both have \<open>name\<close> and \<open>score\<close>.
\<close>

record obj =
  o_rank :: "int option"
  o_player_id :: "pykey option"
  o_name :: pyval
  o_score :: int
  o_ts :: "pyfloat option"

text \<open>The heap, the first address not yet allocated, and the engine's fields.\<close>

record hstate =
  heap :: "nat \<Rightarrow> obj"
  free :: nat
  refs :: "(pykey \<times> nat) list"
  h_update_count :: int
  h_start_time :: real

text \<open>The dict objects of a stored record and of a row.\<close>

definition stored_obj :: "stored \<Rightarrow> obj" where
  "stored_obj d =
     \<lparr>o_rank = None, o_player_id = None, o_name = name d, o_score = score d, o_ts = Some (ts d)\<rparr>"

definition row_obj :: "entry \<Rightarrow> obj" where
  "row_obj r =
     \<lparr>o_rank = Some (rank r), o_player_id = Some (player_id r), o_name = e_name r,
      o_score = e_score r, o_ts = None\<rparr>"

text \<open>
  \<open>{"rank": 0, "player_id": pid, "name": d["name"], "score": d["score"]}\<close> for the
  item \<open>(pid, d)\<close> of \<open>_scores\<close>, where \<open>d\<close> is a reference.
\<close>

definition new_row :: "pykey \<times> nat \<Rightarrow> (nat \<Rightarrow> obj) \<Rightarrow> obj" where
  "new_row p h =
     \<lparr>o_rank = Some 0, o_player_id = Some (fst p), o_name = o_name (h (snd p)),
      o_score = o_score (h (snd p)), o_ts = None\<rparr>"

text \<open>New objects are placed at the addresses from \<open>base\<close> on.\<close>

definition alloc :: "obj list \<Rightarrow> nat \<Rightarrow> (nat \<Rightarrow> obj) \<Rightarrow> (nat \<Rightarrow> obj)" where
  "alloc objs base h =
     (\<lambda>a. if base \<le> a \<and> a < base + length objs then objs ! (a - base) else h a)"

text \<open>\<open>e["rank"] = i\<close>, for the pair \<open>(i, e)\<close> of \<open>enumerate\<close>: a write through the reference \<open>e\<close>.\<close>

definition set_rank :: "nat \<times> nat \<Rightarrow> (nat \<Rightarrow> obj) \<Rightarrow> (nat \<Rightarrow> obj)" where
  "set_rank p h = h(snd p := (h (snd p))\<lparr>o_rank := Some (int (fst p))\<rparr>)"

text \<open>\<open>get_top\<close>: the list it returns is a list of references.\<close>

definition get_top_h :: "int \<Rightarrow> hstate \<Rightarrow> nat list \<times> hstate" where
  "get_top_h n s =
     (let rows = map (\<lambda>p. new_row p (heap s)) (refs s);
          h1 = alloc rows (free s) (heap s);
          sorted_rows = sort_key (\<lambda>a. - o_score (h1 a)) [free s ..< free s + length rows];
          top = slice_to sorted_rows n;
          h2 = fold set_rank (enumerate 1 top) h1
      in (top, s\<lparr>heap := h2, free := free s + length rows\<rparr>))"

text \<open>\<open>get_player\<close>: the reference to the stored dict, or \<open>None\<close>.\<close>

definition get_player_h :: "pykey \<Rightarrow> hstate \<Rightarrow> nat option \<times> hstate" where
  "get_player_h pid s = (dict_get (refs s) pid, s)"

text \<open>
  A heap state represents an engine value: player by player, in the order of the dict,
  the reference is allocated and leads to the dict of the stored record.
\<close>

definition represents :: "hstate \<Rightarrow> engine \<Rightarrow> bool" where
  "represents s e =
     (list_all2 (\<lambda>p q. fst p = fst q \<and> snd p < free s \<and> heap s (snd p) = stored_obj (snd q))
        (refs s) (scores e)
      \<and> h_update_count s = update_count e \<and> h_start_time s = start_time e)"

section \<open>ClientHandler\<close>

text \<open>
  The exceptions \<open>_handle\<close> can meet. Its \<open>except Exception\<close> turns each of them into
  the reply \<open>{"status": "error", "message": str(e)}\<close>; the model keeps the exception
  in place of its text.
\<close>

datatype exn =
    JSONDecodeError
  | AttributeError
  | KeyError string
  | ValueError
  | TypeError
  | OverflowError
  | UnicodeDecodeError

text \<open>
  The functions of the interpreter and its library that the handler calls on text are
  parameters of the model: \<open>bytes.decode("utf-8")\<close>, \<open>json.loads\<close>, \<open>str.upper\<close>,
  \<open>str.strip\<close>, \<open>int\<close> and \<open>float\<close> of a string, and \<open>float\<close> of an integer (which
  rounds, and raises \<open>OverflowError\<close> beyond the range of a double). The properties of
  the handler are stated for every such library.
\<close>

record pylib =
  decode :: "string \<Rightarrow> exn + string"
  loads :: "string \<Rightarrow> exn + pyval"
  upper :: "string \<Rightarrow> string"
  strip :: "string \<Rightarrow> string"
  int_of_str :: "string \<Rightarrow> exn + int"
  float_of_str :: "string \<Rightarrow> exn + pyfloat"
  float_of_int :: "int \<Rightarrow> exn + pyfloat"

text \<open>\<open>int(v)\<close>: a float is truncated towards zero.\<close>

fun py_int :: "pylib \<Rightarrow> pyval \<Rightarrow> exn + int" where
  "py_int lib (PInt i) = Inr i"
| "py_int lib (PBool b) = Inr (if b then 1 else 0)"
| "py_int lib (PFloat (Fin r)) = Inr (if 0 \<le> r then \<lfloor>r\<rfloor> else \<lceil>r\<rceil>)"
| "py_int lib (PFloat NaN) = Inl ValueError"
| "py_int lib (PFloat PInf) = Inl OverflowError"
| "py_int lib (PFloat NInf) = Inl OverflowError"
| "py_int lib (PStr s) = int_of_str lib s"
| "py_int lib PNone = Inl TypeError"
| "py_int lib (PList xs) = Inl TypeError"
| "py_int lib (PDict kvs) = Inl TypeError"

text \<open>\<open>float(v)\<close>.\<close>

fun py_float :: "pylib \<Rightarrow> pyval \<Rightarrow> exn + pyfloat" where
  "py_float lib (PFloat f) = Inr f"
| "py_float lib (PInt i) = float_of_int lib i"
| "py_float lib (PBool b) = Inr (Fin (if b then 1 else 0))"
| "py_float lib (PStr s) = float_of_str lib s"
| "py_float lib PNone = Inl TypeError"
| "py_float lib (PList xs) = Inl TypeError"
| "py_float lib (PDict kvs) = Inl TypeError"

text \<open>\<open>msg[k]\<close> and \<open>msg.get(k, dflt)\<close>.\<close>

definition getitem :: "(string \<times> pyval) list \<Rightarrow> string \<Rightarrow> exn + pyval" where
  "getitem msg k = (case dict_get msg k of None \<Rightarrow> Inl (KeyError k) | Some v \<Rightarrow> Inr v)"

definition get_default :: "(string \<times> pyval) list \<Rightarrow> string \<Rightarrow> pyval \<Rightarrow> pyval" where
  "get_default msg k dflt = (case dict_get msg k of None \<Rightarrow> dflt | Some v \<Rightarrow> v)"

text \<open>The key a value is as a dict key; \<open>dict.get\<close> raises on an unhashable value.\<close>

definition key_of :: "pyval \<Rightarrow> exn + pykey" where
  "key_of v = (case hashable v of None \<Rightarrow> Inl TypeError | Some k \<Rightarrow> Inr k)"

definition TOP_N :: int where
  "TOP_N = 10"

text \<open>
  The payload \<open>data\<close> of a reply, one constructor per shape the handler builds:
  \<open>{**result, "top": ...}\<close>, \<open>{"top": ...}\<close>, the stored dict, the stats dict,
  \<open>{"pong": True, "server_time": ...}\<close> and \<open>{"error": ...}\<close>.
\<close>

datatype data =
    UpdateData update_result "entry list"
  | TopData "entry list"
  | PlayerData stored
  | StatsData stats_d
  | PongData real
  | ErrorData string

text \<open>
  The two envelopes: \<open>{"status": "ok", "latency_ms": ..., "data": ...}\<close> and
  \<open>{"status": "error", "message": ...}\<close>.
\<close>

datatype response = Ok real data | Error exn

fun resp_status :: "response \<Rightarrow> string" where
  "resp_status (Ok ms d) = ''ok''"
| "resp_status (Error ex) = ''error''"

text \<open>
  The clock readings of one call of \<open>_handle\<close>: \<open>time.time()\<close>, and
  \<open>time.perf_counter()\<close> on entry and at the return.
\<close>

record clock =
  now :: real
  t0 :: real
  t1 :: real

definition latency_ms :: "clock \<Rightarrow> real" where
  "latency_ms clk = py_round (fmul (fsub (t1 clk) (t0 clk)) 1000) 3"

text \<open>
  Sequencing inside the \<open>try\<close>: an exception leaves with the engine as it is at that
  point, a value goes on.
\<close>

definition raising ::
  "exn + 'a \<Rightarrow> engine \<Rightarrow> ('a \<Rightarrow> (exn + data) \<times> engine) \<Rightarrow> (exn + data) \<times> engine" where
  "raising r e k = (case r of Inl ex \<Rightarrow> (Inl ex, e) | Inr v \<Rightarrow> k v)"

text \<open>
  The \<open>UPDATE\<close> branch. The arguments of \<open>engine.update\<close> are evaluated from left to
  right; the unhashable \<open>player_id\<close> raises in the first line of \<open>update\<close>, before any
  write.
\<close>

definition cmd_update ::
  "pylib \<Rightarrow> clock \<Rightarrow> engine \<Rightarrow> (string \<times> pyval) list \<Rightarrow> (exn + data) \<times> engine" where
  "cmd_update lib clk e msg =
     raising (getitem msg ''player_id'') e (\<lambda>pid.
     raising (getitem msg ''score'') e (\<lambda>sv.
     raising (py_int lib sv) e (\<lambda>sc.
     raising (py_float lib (get_default msg ''ts'' (PFloat (Fin (now clk))))) e (\<lambda>timestamp.
     raising (key_of pid) e (\<lambda>k.
       let (result, e1) = update k (get_default msg ''name'' pid) sc timestamp e;
           (top, e2) = get_top TOP_N e1
       in (Inr (UpdateData result top), e2))))))"

definition cmd_get_top ::
  "pylib \<Rightarrow> engine \<Rightarrow> (string \<times> pyval) list \<Rightarrow> (exn + data) \<times> engine" where
  "cmd_get_top lib e msg =
     raising (py_int lib (get_default msg ''n'' (PInt TOP_N))) e (\<lambda>n.
       let (top, e1) = get_top n e in (Inr (TopData top), e1))"

definition cmd_get_player ::
  "engine \<Rightarrow> (string \<times> pyval) list \<Rightarrow> (exn + data) \<times> engine" where
  "cmd_get_player e msg =
     raising (getitem msg ''player_id'') e (\<lambda>pid.
     raising (key_of pid) e (\<lambda>k.
       let (p, e1) = get_player k e
       in (Inr (case p of None \<Rightarrow> ErrorData ''player not found'' | Some d \<Rightarrow> PlayerData d),
           e1)))"

text \<open>
  The body of the \<open>try\<close>. A decoded value that is not a dict has no \<open>get\<close>, and a
  \<open>cmd\<close> that is not a string has no \<open>upper\<close>: both raise \<open>AttributeError\<close>.
\<close>

definition dispatch :: "pylib \<Rightarrow> clock \<Rightarrow> engine \<Rightarrow> string \<Rightarrow> (exn + data) \<times> engine" where
  "dispatch lib clk e raw =
     raising (loads lib raw) e (\<lambda>decoded.
       case decoded of
         PDict msg \<Rightarrow>
           (case get_default msg ''cmd'' (PStr '''') of
              PStr c \<Rightarrow>
                (let cmd = upper lib c in
                 if cmd = ''UPDATE'' then cmd_update lib clk e msg
                 else if cmd = ''GET_TOP'' then cmd_get_top lib e msg
                 else if cmd = ''GET_PLAYER'' then cmd_get_player e msg
                 else if cmd = ''STATS'' then
                   (let (s, e1) = stats (now clk) e in (Inr (StatsData s), e1))
                 else if cmd = ''PING'' then (Inr (PongData (now clk)), e)
                 else (Inr (ErrorData (''unknown command: '' @ cmd)), e))
            | _ \<Rightarrow> (Inl AttributeError, e))
       | _ \<Rightarrow> (Inl AttributeError, e))"

text \<open>\<open>_handle\<close>: the reply, and the engine after the call.\<close>

definition handle :: "pylib \<Rightarrow> clock \<Rightarrow> engine \<Rightarrow> string \<Rightarrow> response \<times> engine" where
  "handle lib clk e raw =
     (case dispatch lib clk e raw of
        (Inr d, e1) \<Rightarrow> (Ok (latency_ms clk) d, e1)
      | (Inl ex, e1) \<Rightarrow> (Error ex, e1))"

text \<open>The command names the handler knows.\<close>

definition commands :: "string set" where
  "commands = {''UPDATE'', ''GET_TOP'', ''GET_PLAYER'', ''STATS'', ''PING''}"

section \<open>The read loop of a session\<close>

text \<open>
  \<open>ClientHandler.run\<close>, as seen from one session: the state of the session, the engine
  it shares, its read buffer and the replies handed to \<open>_send\<close> (which swallows its own
  failures). The \<open>k\<close>-th frame handled reads the clock \<open>clocks k\<close>.
\<close>

datatype sstate = Reading | Closed

record session =
  shared :: engine
  buf :: string
  sent :: "response list"
  state :: sstate

definition newline :: char where
  "newline = CHR 0x0A"

text \<open>\<open>if line.strip(): self._send(self._handle(line.strip()))\<close>.\<close>

definition on_line :: "pylib \<Rightarrow> (nat \<Rightarrow> clock) \<Rightarrow> string \<Rightarrow> session \<Rightarrow> session" where
  "on_line lib clocks line s =
     (if strip lib line \<noteq> []
      then (let (r, e1) = handle lib (clocks (length (sent s))) (shared s) (strip lib line)
            in s\<lparr>shared := e1, sent := sent s @ [r]\<rparr>)
      else s)"

text \<open>\<open>while "\n" in buf: line, buf = buf.split("\n", 1); ...\<close>.\<close>

function drain :: "pylib \<Rightarrow> (nat \<Rightarrow> clock) \<Rightarrow> session \<Rightarrow> session" where
  "drain lib clocks s =
     (if newline \<in> set (buf s)
      then drain lib clocks
             (on_line lib clocks (takeWhile (\<lambda>c. c \<noteq> newline) (buf s))
                (s\<lparr>buf := tl (dropWhile (\<lambda>c. c \<noteq> newline) (buf s))\<rparr>))
      else s)"
  by pat_completeness auto

lemma buf_on_line: "buf (on_line lib clocks line s) = buf s"
  by (simp add: on_line_def Let_def split: prod.splits)

lemma length_after_newline:
  assumes "newline \<in> set xs"
  shows "length (tl (dropWhile (\<lambda>c. c \<noteq> newline) xs)) < length xs"
proof -
  from assms have "0 < length xs" by (cases xs) auto
  moreover have "length (dropWhile (\<lambda>c. c \<noteq> newline) xs) \<le> length xs"
    by (rule length_dropWhile_le)
  ultimately show ?thesis by (simp del: length_greater_0_conv)
qed

termination drain
  by (relation "measure (\<lambda>(lib, clocks, s). length (buf s))")
     (simp_all add: buf_on_line length_after_newline del: length_tl)

declare drain.simps [simp del]

text \<open>
  One turn of the outer loop, on what \<open>self.conn.recv(4096).decode("utf-8")\<close> gave: a
  chunk of text, or an exception. An empty chunk (the peer closed) and an exception end
  the session.
\<close>

datatype recv = Chunk string | Failure

definition on_recv :: "pylib \<Rightarrow> (nat \<Rightarrow> clock) \<Rightarrow> recv \<Rightarrow> session \<Rightarrow> session" where
  "on_recv lib clocks r s =
     (case r of
        Failure \<Rightarrow> s\<lparr>state := Closed\<rparr>
      | Chunk chunk \<Rightarrow>
          if chunk = [] then s\<lparr>state := Closed\<rparr>
          else drain lib clocks (s\<lparr>buf := buf s @ chunk\<rparr>))"

text \<open>
  The same turn from the socket on: \<open>self.conn.recv(4096)\<close> gives bytes or raises, and
  \<open>.decode("utf-8")\<close> gives the text of the chunk or raises. Both exceptions leave the
  loop through the \<open>except\<close> of \<open>run\<close>.
\<close>

datatype wire = Received string | Broken

definition on_read :: "pylib \<Rightarrow> (nat \<Rightarrow> clock) \<Rightarrow> wire \<Rightarrow> session \<Rightarrow> session" where
  "on_read lib clocks w s =
     on_recv lib clocks
       (case w of
          Broken \<Rightarrow> Failure
        | Received bs \<Rightarrow> (case decode lib bs of Inl ex \<Rightarrow> Failure | Inr chunk \<Rightarrow> Chunk chunk))
       s"

section \<open>Histories of updates\<close>

text \<open>A sequence of calls of \<open>update\<close>, each given as (player_id, name, score, timestamp).\<close>

fun apply_updates ::
  "(pykey \<times> pyval \<times> int \<times> pyfloat) list \<Rightarrow> engine \<Rightarrow> update_result list \<times> engine" where
  "apply_updates [] e = ([], e)"
| "apply_updates ((pid, nm, sc, timestamp) # us) e =
     (let (r, e') = update pid nm sc timestamp e;
          (rs, e'') = apply_updates us e'
      in (r # rs, e''))"

definition accepted :: "update_result \<Rightarrow> bool" where
  "accepted r = (status r = ''accepted'')"

text \<open>Some call for player \<open>k\<close> in the history was accepted.\<close>

definition accepted_for ::
  "pykey \<Rightarrow> (pykey \<times> pyval \<times> int \<times> pyfloat) list \<Rightarrow> update_result list \<Rightarrow> bool" where
  "accepted_for k us rs = list_ex (\<lambda>(u, r). fst u = k \<and> accepted r) (zip us rs)"

text \<open>Timestamps that grow strictly along the list, by the float comparison \<open><\<close>.\<close>

definition strictly_increasing :: "pyfloat list \<Rightarrow> bool" where
  "strictly_increasing fs = sorted_wrt (\<lambda>a b. float_gt b a) fs"

text \<open>The updates (name, score, timestamp) of one player, as calls of \<open>update\<close>.\<close>

definition for_player ::
  "pykey \<Rightarrow> (pyval \<times> int \<times> pyfloat) list \<Rightarrow> (pykey \<times> pyval \<times> int \<times> pyfloat) list" where
  "for_player pid us = map (\<lambda>(nm, sc, t). (pid, nm, sc, t)) us"

section \<open>Concrete inputs\<close>

text \<open>Two stores: one player, and two players of equal score.\<close>

definition one_player :: engine where
  "one_player = snd (apply_updates [(KStr ''p1'', PStr ''Ann'', 10, Fin 1)] (init 0))"

definition tied_board :: engine where
  "tied_board =
     snd (apply_updates
       [(KStr ''a'', PStr ''Ann'', 5, Fin 1), (KStr ''b'', PStr ''Bob'', 5, Fin 2)] (init 0))"

text \<open>The store of the two tied players on a heap: their records are the objects 0 and 1.\<close>

definition tied_heap :: hstate where
  "tied_heap =
     \<lparr>heap = (\<lambda>a. if a = 0 then stored_obj \<lparr>score = 5, name = PStr ''Ann'', ts = Fin 1\<rparr>
                     else stored_obj \<lparr>score = 5, name = PStr ''Bob'', ts = Fin 2\<rparr>),
      free = 2,
      refs = [(KStr ''a'', 0), (KStr ''b'', 1)],
      h_update_count = 2,
      h_start_time = 0\<rparr>"

text \<open>Three updates of one player with growing timestamps, the last one infinite.\<close>

definition climb :: "(pyval \<times> int \<times> pyfloat) list" where
  "climb = [(PStr ''Ann'', 12, Fin 2), (PStr ''Annie'', 3, Fin (5 / 2)), (PStr ''A'', 20, PInf)]"

text \<open>
  A history with stale updates: the second call is older than the first, and the fourth
  meets a stored NaN timestamp, which no timestamp exceeds.
\<close>

definition mixed :: "(pykey \<times> pyval \<times> int \<times> pyfloat) list" where
  "mixed =
     [(KStr ''a'', PStr ''Ann'', 5, Fin 2), (KStr ''a'', PStr ''Ann'', 9, Fin 1),
      (KStr ''b'', PStr ''Bob'', 1, NaN), (KStr ''b'', PStr ''Bob'', 2, Fin 7),
      (KStr ''a'', PStr ''Ann'', 6, Fin 3)]"

text \<open>
  A stand-in for the interpreter on the frames below: \<open>loads\<close> is the table of what
  \<open>json.loads\<close> returns on them (any other text here is taken as undecodable), \<open>upper\<close>
  and \<open>strip\<close> are the ASCII parts of \<open>str.upper\<close> and \<open>str.strip\<close>, \<open>decode\<close> is
  UTF-8 on ASCII bytes (the only other chunk used below has the byte 255, which UTF-8
  refuses), and the number parsers, which no frame below reaches, refuse every string.
\<close>

definition ascii_upper :: "string \<Rightarrow> string" where
  "ascii_upper s =
     map (\<lambda>c. case map_of (zip ''abcdefghijklmnopqrstuvwxyz'' ''ABCDEFGHIJKLMNOPQRSTUVWXYZ'') c of
                None \<Rightarrow> c | Some u \<Rightarrow> u) s"

definition ascii_space :: "char \<Rightarrow> bool" where
  "ascii_space c = ((of_char c :: nat) \<in> {9, 10, 11, 12, 13, 28, 29, 30, 31, 32})"

definition ascii_strip :: "string \<Rightarrow> string" where
  "ascii_strip s = rev (dropWhile ascii_space (rev (dropWhile ascii_space s)))"

definition frame_dance :: string where
  \<open>frame_dance = ''{"cmd": "dance"}''\<close>

definition frame_list :: string where
  \<open>frame_list = ''[1, 2]''\<close>

definition frame_cmd_number :: string where
  \<open>frame_cmd_number = ''{"cmd": 5}''\<close>

definition frame_numeric_id :: string where
  \<open>frame_numeric_id = ''{"cmd": "UPDATE", "player_id": 7, "score": 1, "ts": 2.0}''\<close>

definition frame_no_id :: string where
  \<open>frame_no_id = ''{"cmd": "UPDATE", "score": 5}''\<close>

definition frame_no_score :: string where
  \<open>frame_no_score = ''{"cmd": "update", "player_id": "p1"}''\<close>

definition frame_null_score :: string where
  \<open>frame_null_score = ''{"cmd": "UPDATE", "player_id": "p1", "score": null}''\<close>

definition frame_list_id :: string where
  \<open>frame_list_id = ''{"cmd": "GET_PLAYER", "player_id": [1]}''\<close>

definition frame_lookup_no_id :: string where
  \<open>frame_lookup_no_id = ''{"cmd": "GET_PLAYER"}''\<close>

definition frame_ghost :: string where
  \<open>frame_ghost = ''{"cmd": "get_player", "player_id": "ghost"}''\<close>

definition frame_p1 :: string where
  \<open>frame_p1 = ''{"cmd": "GET_PLAYER", "player_id": "p1"}''\<close>

definition frame_update_list_id :: string where
  \<open>frame_update_list_id = ''{"cmd": "UPDATE", "player_id": [1], "score": 3, "ts": 9.5}''\<close>

definition frame_null_ts :: string where
  \<open>frame_null_ts = ''{"cmd": "UPDATE", "player_id": "p1", "score": 3, "ts": null}''\<close>

definition frame_bool_id :: string where
  \<open>frame_bool_id = ''{"cmd": "UPDATE", "player_id": true, "score": 4, "ts": 2.5}''\<close>

text \<open>Two bytes that are no UTF-8 text: the byte 255, which no UTF-8 sequence has, and a newline.\<close>

definition bad_bytes :: string where
  "bad_bytes = [CHR 0xFF, CHR 0x0A]"

definition decoded :: "(string \<times> pyval) list" where
  "decoded =
     [(frame_dance, PDict [(''cmd'', PStr ''dance'')]),
      (frame_list, PList [PInt 1, PInt 2]),
      (frame_cmd_number, PDict [(''cmd'', PInt 5)]),
      (frame_numeric_id,
         PDict [(''cmd'', PStr ''UPDATE''), (''player_id'', PInt 7), (''score'', PInt 1),
                (''ts'', PFloat (Fin 2))]),
      (frame_no_id, PDict [(''cmd'', PStr ''UPDATE''), (''score'', PInt 5)]),
      (frame_no_score, PDict [(''cmd'', PStr ''update''), (''player_id'', PStr ''p1'')]),
      (frame_null_score,
         PDict [(''cmd'', PStr ''UPDATE''), (''player_id'', PStr ''p1''), (''score'', PNone)]),
      (frame_list_id, PDict [(''cmd'', PStr ''GET_PLAYER''), (''player_id'', PList [PInt 1])]),
      (frame_lookup_no_id, PDict [(''cmd'', PStr ''GET_PLAYER'')]),
      (frame_ghost, PDict [(''cmd'', PStr ''get_player''), (''player_id'', PStr ''ghost'')]),
      (frame_p1, PDict [(''cmd'', PStr ''GET_PLAYER''), (''player_id'', PStr ''p1'')]),
      (frame_update_list_id,
         PDict [(''cmd'', PStr ''UPDATE''), (''player_id'', PList [PInt 1]), (''score'', PInt 3),
                (''ts'', PFloat (Fin (19 / 2)))]),
      (frame_null_ts,
         PDict [(''cmd'', PStr ''UPDATE''), (''player_id'', PStr ''p1''), (''score'', PInt 3),
                (''ts'', PNone)]),
      (frame_bool_id,
         PDict [(''cmd'', PStr ''UPDATE''), (''player_id'', PBool True), (''score'', PInt 4),
                (''ts'', PFloat (Fin (5 / 2)))])]"

definition demo_lib :: pylib where
  "demo_lib =
     \<lparr>decode = (\<lambda>bs. if list_all (\<lambda>c. (of_char c :: nat) < 128) bs then Inr bs
                     else Inl UnicodeDecodeError),
      loads = (\<lambda>s. case map_of decoded s of None \<Rightarrow> Inl JSONDecodeError | Some v \<Rightarrow> Inr v),
      upper = ascii_upper,
      strip = ascii_strip,
      int_of_str = (\<lambda>s. Inl ValueError),
      float_of_str = (\<lambda>s. Inl ValueError),
      float_of_int = (\<lambda>i. Inr (Fin (of_int i)))\<rparr>"

text \<open>A clock: an eighth of a second passes inside the handler.\<close>

definition demo_clock :: clock where
  "demo_clock = \<lparr>now = 50, t0 = 3, t1 = 3 + 1 / 8\<rparr>"

text \<open>A session that has just started on the engine \<open>e\<close>.\<close>

definition fresh_session :: "engine \<Rightarrow> session" where
  "fresh_session e = \<lparr>shared = e, buf = [], sent = [], state = Reading\<rparr>"

section \<open>Properties of the arithmetic on doubles\<close>

lemma exponent_aux_numeral:
  "exponent_aux (numeral k) x =
     (if 2 \<le> x then exponent_aux (pred_numeral k) (x / 2) + 1
      else if x < 1 then exponent_aux (pred_numeral k) (2 * x) - 1
      else 0)"
  by (simp add: numeral_eq_Suc)

lemmas float_eval = to_double_def exponent_def exponent_aux_numeral pow2_def round_half_even_def
  Let_def fsub_def fmul_def fdiv_def py_round_def

lemma pow2_powi: "pow2 k = 2 powi k"
  by (simp add: pow2_def power_int_def power_inverse [symmetric] inverse_eq_divide power_divide)

lemma pow2_Suc: "pow2 (k + 1) = 2 * pow2 k"
  by (simp add: pow2_powi power_int_add)

lemma pow2_pred: "pow2 (k - 1) = pow2 k / 2"
  by (simp add: pow2_powi power_int_diff)

text \<open>The halving and doubling finds the binary exponent.\<close>

lemma exponent_aux_bounds:
  "1 / 2 ^ n \<le> x \<Longrightarrow> x < 2 ^ Suc n \<Longrightarrow>
     pow2 (exponent_aux n x) \<le> x \<and> x < 2 * pow2 (exponent_aux n x)"
proof (induction n arbitrary: x)
  case 0
  then show ?case by (simp add: pow2_def)
next
  case (Suc n)
  show ?case
  proof (cases "2 \<le> x")
    case True
    have "1 / 2 ^ n \<le> (1::real)" by (simp add: divide_le_eq)
    moreover from True have "1 \<le> x / 2" by simp
    ultimately have a: "1 / 2 ^ n \<le> x / 2" by (rule order_trans)
    have b: "x / 2 < 2 ^ Suc n" using Suc.prems(2) by simp
    from Suc.IH [OF a b] True show ?thesis by (simp add: pow2_Suc)
  next
    case False
    show ?thesis
    proof (cases "x < 1")
      case True
      have a: "1 / 2 ^ n \<le> 2 * x" using Suc.prems(1) by (simp add: field_simps)
      have "(2::real) \<le> 2 ^ Suc n" by simp
      with True have b: "2 * x < 2 ^ Suc n" by linarith
      from Suc.IH [OF a b] True show ?thesis by (simp add: pow2_pred)
    next
      case False
      with \<open>\<not> 2 \<le> x\<close> show ?thesis by (simp add: pow2_def)
    qed
  qed
qed

lemma exponent_bounds:
  "1 / 2 ^ 1100 \<le> \<bar>x\<bar> \<Longrightarrow> \<bar>x\<bar> < 2 ^ 1101 \<Longrightarrow>
     pow2 (exponent x) \<le> \<bar>x\<bar> \<and> \<bar>x\<bar> < 2 * pow2 (exponent x)"
  unfolding exponent_def by (rule exponent_aux_bounds) simp_all

text \<open>Rounding to an integer fixes the integers and keeps bounds that are integers.\<close>

lemma rhe_of_int: "round_half_even (of_int m) = m"
  by (simp add: round_half_even_def)

lemma rhe_lower:
  assumes "of_int a \<le> z" shows "a \<le> round_half_even z"
proof -
  from assms have "a \<le> \<lfloor>z\<rfloor>" by (simp add: le_floor_iff)
  then show ?thesis by (simp add: round_half_even_def Let_def)
qed

lemma rhe_upper:
  assumes "z \<le> of_int b" shows "round_half_even z \<le> b"
proof (cases "z = of_int b")
  case True
  then show ?thesis by (simp add: rhe_of_int)
next
  case False
  with assms have "z < of_int b" by simp
  then have "\<lfloor>z\<rfloor> < b" by (simp add: floor_less_iff)
  then show ?thesis by (simp add: round_half_even_def Let_def)
qed

lemma pow2_pos: "0 < pow2 k"
  by (simp add: pow2_def)

lemma pow2_add: "pow2 (a + b) = pow2 a * pow2 b"
  by (simp add: pow2_powi power_int_add)

lemma pow2_less: "pow2 a < pow2 b \<Longrightarrow> a < b"
proof (rule ccontr)
  assume l: "pow2 a < pow2 b" and "\<not> a < b"
  then have "b \<le> a" by simp
  then have "pow2 b \<le> pow2 a" by (simp add: pow2_powi power_int_increasing)
  with l show False by simp
qed

lemma pow2_mono: "a \<le> b \<Longrightarrow> pow2 a \<le> pow2 b"
  by (simp add: pow2_powi power_int_increasing)

lemma pow2_nat: "pow2 (int n) = 2 ^ n"
  by (simp add: pow2_def)

lemma pow2_neg_nat: "pow2 (- int n) = 1 / 2 ^ n"
  by (simp add: pow2_powi power_int_minus_divide)

text \<open>The binary exponent is the only one, and below the normal range it is clamped.\<close>

lemma exponent_unique:
  assumes lo: "pow2 k \<le> \<bar>y\<bar>" and hi: "\<bar>y\<bar> < 2 * pow2 k" and k: "- 1100 \<le> k" "k \<le> 1100"
  shows "exponent y = k"
proof -
  have "pow2 (- int 1100) \<le> pow2 k" using k(1) by (intro pow2_mono) simp
  then have a: "1 / 2 ^ 1100 \<le> \<bar>y\<bar>" using lo unfolding pow2_neg_nat by simp
  have "pow2 (k + 1) \<le> pow2 (int 1101)" using k(2) by (intro pow2_mono) simp
  then have b: "\<bar>y\<bar> < 2 ^ 1101" using hi unfolding pow2_nat pow2_Suc by simp
  from exponent_bounds [OF a b]
  have c: "pow2 (exponent y) \<le> \<bar>y\<bar>" and d: "\<bar>y\<bar> < 2 * pow2 (exponent y)" by simp_all
  from lo d have "pow2 k < pow2 (exponent y + 1)" by (simp add: pow2_Suc)
  then have "k < exponent y + 1" by (rule pow2_less)
  moreover from c hi have "pow2 (exponent y) < pow2 (k + 1)" by (simp add: pow2_Suc)
  then have "exponent y < k + 1" by (rule pow2_less)
  ultimately show ?thesis by simp
qed

lemma exponent_aux_tiny: "0 \<le> x \<Longrightarrow> x < 1 / 2 ^ n \<Longrightarrow> exponent_aux n x = - int n"
proof (induction n arbitrary: x)
  case 0
  then show ?case by simp
next
  case (Suc n)
  have "(1::real) \<le> 2 ^ Suc n" by (rule one_le_power) simp
  then have "(1::real) / 2 ^ Suc n \<le> 1" by (simp add: divide_le_eq del: power_Suc)
  with Suc.prems(2) have x1: "x < 1" by (rule less_le_trans)
  from Suc.prems have "2 * x < 1 / 2 ^ n" by (simp add: field_simps)
  with Suc.IH [of "2 * x"] Suc.prems(1) have "exponent_aux n (2 * x) = - int n" by simp
  with x1 show ?case by simp
qed

lemma exponent_small:
  assumes "\<bar>x\<bar> < pow2 (- 1022)"
  shows "exponent x < - 1022"
proof (cases "1 / 2 ^ 1100 \<le> \<bar>x\<bar>")
  case True
  have "pow2 (- 1022) \<le> pow2 (int 1101)" by (intro pow2_mono) simp
  with assms have b: "\<bar>x\<bar> < 2 ^ 1101" unfolding pow2_nat by simp
  from exponent_bounds [OF True b] assms have "pow2 (exponent x) < pow2 (- 1022)" by simp
  then show ?thesis by (rule pow2_less)
next
  case False
  then have "\<bar>x\<bar> < 1 / 2 ^ 1100" by simp
  then have "exponent_aux 1100 \<bar>x\<bar> = - int 1100" by (intro exponent_aux_tiny) simp_all
  then show ?thesis by (simp add: exponent_def)
qed


lemma rhe_abs_bounds:
  assumes "of_int a \<le> \<bar>z\<bar>" and "\<bar>z\<bar> \<le> of_int b"
  shows "a \<le> \<bar>round_half_even z\<bar> \<and> \<bar>round_half_even z\<bar> \<le> b"
proof (cases "0 \<le> z")
  case True
  with assms have "of_int a \<le> z" "z \<le> of_int b" by simp_all
  then have l: "a \<le> round_half_even z" and u: "round_half_even z \<le> b"
    by (simp_all add: rhe_lower rhe_upper)
  from True have "of_int 0 \<le> z" by simp
  then have "0 \<le> round_half_even z" by (rule rhe_lower)
  with l u show ?thesis by simp
next
  case False
  with assms have "z \<le> of_int (- a)" "of_int (- b) \<le> z" by simp_all
  then have u: "round_half_even z \<le> - a" and l: "- b \<le> round_half_even z"
    by (simp_all add: rhe_lower rhe_upper del: of_int_minus)
  from False have "z \<le> of_int 0" by simp
  then have "round_half_even z \<le> 0" by (rule rhe_upper)
  with l u show ?thesis by simp
qed

lemma to_double_unfold:
  "y \<noteq> 0 \<Longrightarrow> max (exponent y) (- 1022) = k \<Longrightarrow>
     to_double y = of_int (round_half_even (y * pow2 (52 - k))) * pow2 (k - 52)"
  by (simp add: to_double_def Let_def)

lemma pow2_scale: "of_int m * pow2 (e - 52) * pow2 (52 - k) = of_int m * pow2 (e - k)"
proof -
  have "pow2 (e - 52) * pow2 (52 - k) = pow2 ((e - 52) + (52 - k))"
    by (simp only: pow2_add)
  then show ?thesis by simp
qed

lemma pow2_52: "pow2 e = 2 ^ 52 * pow2 (e - 52)"
proof -
  have "pow2 (52 + (e - 52)) = pow2 52 * pow2 (e - 52)" by (simp only: pow2_add)
  then show ?thesis by (simp add: pow2_def)
qed

lemma pow2_0: "pow2 0 = 1"
  by (simp add: pow2_def)

text \<open>
  A significand of at most 53 bits at an exponent of a double, normal or subnormal, is
  a double: rounding leaves it.
\<close>

lemma to_double_fix:
  assumes m: "\<bar>m\<bar> \<le> 2 ^ 53" and e: "- 1022 \<le> e" "e \<le> 1023"
    and n: "2 ^ 52 \<le> \<bar>m\<bar> \<or> e = - 1022"
  shows "to_double (of_int m * pow2 (e - 52)) = of_int m * pow2 (e - 52)"
proof -
  define y where "y = of_int m * pow2 (e - 52)"
  have pp: "0 < pow2 (e - 52)" by (rule pow2_pos)
  have ay: "\<bar>y\<bar> = of_int \<bar>m\<bar> * pow2 (e - 52)"
    using pp by (simp add: y_def abs_mult)
  have sc: "y * pow2 (52 - k) = of_int m * pow2 (e - k)" for k
    unfolding y_def by (rule pow2_scale)
  consider (zero) "m = 0" | (top) "\<bar>m\<bar> = 2 ^ 53"
    | (normal) "2 ^ 52 \<le> \<bar>m\<bar>" "\<bar>m\<bar> < 2 ^ 53"
    | (sub) "m \<noteq> 0" "\<bar>m\<bar> < 2 ^ 52" "e = - 1022"
    using m n by linarith
  then have "to_double y = y"
  proof cases
    case zero
    then show ?thesis by (simp add: y_def to_double_def)
  next
    case normal
    from normal(1) have "of_int (2 ^ 52) \<le> (of_int \<bar>m\<bar> :: real)" by (simp only: of_int_le_iff)
    then have "2 ^ 52 * pow2 (e - 52) \<le> of_int \<bar>m\<bar> * pow2 (e - 52)"
      using pp by simp
    then have lo: "pow2 e \<le> \<bar>y\<bar>" unfolding ay by (simp only: pow2_52 [of e])
    from normal(2) have "(of_int \<bar>m\<bar> :: real) < of_int (2 ^ 53)" by (simp only: of_int_less_iff)
    then have "of_int \<bar>m\<bar> * pow2 (e - 52) < 2 ^ 53 * pow2 (e - 52)"
      using pp by simp
    then have hi: "\<bar>y\<bar> < 2 * pow2 e" unfolding ay by (simp add: pow2_52 [of e])
    from e have "exponent y = e" by (intro exponent_unique [OF lo hi]) simp_all
    with e have k: "max (exponent y) (- 1022) = e" by simp
    from lo pow2_pos [of e] have nz: "y \<noteq> 0" by auto
    have sc0: "y * pow2 (52 - e) = of_int m" using sc [of e] by (simp add: pow2_0)
    have "to_double y = of_int (round_half_even (y * pow2 (52 - e))) * pow2 (e - 52)"
      by (rule to_double_unfold [OF nz k])
    also have "\<dots> = of_int m * pow2 (e - 52)" by (simp only: sc0 rhe_of_int)
    finally show ?thesis by (simp only: y_def)
  next
    case sub
    from sub(2) have "(of_int \<bar>m\<bar> :: real) < of_int (2 ^ 52)" by (simp only: of_int_less_iff)
    then have "of_int \<bar>m\<bar> * pow2 (e - 52) < 2 ^ 52 * pow2 (e - 52)"
      using pp by simp
    then have "\<bar>y\<bar> < pow2 e" unfolding ay by (simp only: pow2_52 [of e])
    with sub(3) have "\<bar>y\<bar> < pow2 (- 1022)" by simp
    then have "exponent y < - 1022" by (rule exponent_small)
    then have k: "max (exponent y) (- 1022) = e" using sub(3) by simp
    from sub(1) pp have nz: "y \<noteq> 0" by (simp add: y_def)
    have sc0: "y * pow2 (52 - e) = of_int m" using sc [of e] by (simp add: pow2_0)
    have "to_double y = of_int (round_half_even (y * pow2 (52 - e))) * pow2 (e - 52)"
      by (rule to_double_unfold [OF nz k])
    also have "\<dots> = of_int m * pow2 (e - 52)" by (simp only: sc0 rhe_of_int)
    finally show ?thesis by (simp only: y_def)
  next
    case top
    have "(of_int \<bar>m\<bar> :: real) = of_int (2 ^ 53)" by (simp only: top)
    then have "of_int \<bar>m\<bar> * pow2 (e - 52) = 2 * (2 ^ 52 * pow2 (e - 52))"
      by simp
    then have "\<bar>y\<bar> = pow2 (e + 1)" unfolding ay by (simp add: pow2_52 [of e] pow2_Suc)
    then have lo: "pow2 (e + 1) \<le> \<bar>y\<bar>" and hi: "\<bar>y\<bar> < 2 * pow2 (e + 1)"
      using pow2_pos [of "e + 1"] by simp_all
    from e have "exponent y = e + 1" by (intro exponent_unique [OF lo hi]) simp_all
    with e have k: "max (exponent y) (- 1022) = e + 1" by simp
    from lo pow2_pos [of "e + 1"] have nz: "y \<noteq> 0" by auto
    from top have "m = 2 ^ 53 \<or> m = - (2 ^ 53)" by linarith
    then have "even m" by auto
    then have "2 * (m div 2) = m" by simp
    then have "(of_int m :: real) = of_int (2 * (m div 2))" by (simp only:)
    then have ev: "(of_int m :: real) = 2 * of_int (m div 2)" by simp
    have "y * pow2 (52 - (e + 1)) = of_int m * pow2 (- 1)" using sc [of "e + 1"] by simp
    also have "\<dots> = of_int (m div 2)" by (simp add: ev pow2_def)
    finally have r: "round_half_even (y * pow2 (52 - (e + 1))) = m div 2"
      by (simp only: rhe_of_int)
    have p: "pow2 (e + 1 - 52) = 2 * pow2 (e - 52)"
      using pow2_Suc [of "e - 52"] by (simp add: algebra_simps)
    have "to_double y = of_int (round_half_even (y * pow2 (52 - (e + 1)))) * pow2 (e + 1 - 52)"
      by (rule to_double_unfold [OF nz k])
    also have "\<dots> = of_int (m div 2) * (2 * pow2 (e - 52))" by (simp only: r p)
    also have "\<dots> = of_int m * pow2 (e - 52)" by (simp add: ev)
    finally show ?thesis by (simp only: y_def)
  qed
  then show ?thesis by (simp only: y_def)
qed


lemma pow2_mult_cancel: "pow2 a * pow2 (52 - a) = 2 ^ 52"
proof -
  have "pow2 (a + (52 - a)) = pow2 a * pow2 (52 - a)" by (simp only: pow2_add)
  then show ?thesis by (simp add: pow2_def)
qed

text \<open>
  Rounding gives a double, so rounding once more changes nothing. Dividing a rounded
  number by 1 therefore rounds the quotient once, as the division of an integer by the
  integer 1 does.
\<close>

lemma to_double_idem:
  assumes "\<bar>x\<bar> < 2 ^ 1024"
  shows "to_double (to_double x) = to_double x"
proof (cases "x = 0")
  case True
  then show ?thesis by (simp add: to_double_def)
next
  case False
  define e where "e = max (exponent x) (- 1022)"
  define m where "m = round_half_even (x * pow2 (52 - e))"
  have td: "to_double x = of_int m * pow2 (e - 52)"
    unfolding m_def by (rule to_double_unfold [OF False]) (simp add: e_def)
  have pe: "0 < pow2 (52 - e)" by (rule pow2_pos)
  have az: "\<bar>x * pow2 (52 - e)\<bar> = \<bar>x\<bar> * pow2 (52 - e)"
    using pe by (simp add: abs_mult)
  have "\<bar>m\<bar> \<le> 2 ^ 53 \<and> - 1022 \<le> e \<and> e \<le> 1023 \<and> (2 ^ 52 \<le> \<bar>m\<bar> \<or> e = - 1022)"
  proof (cases "\<bar>x\<bar> < pow2 (- 1022)")
    case True
    then have "exponent x < - 1022" by (rule exponent_small)
    then have e: "e = - 1022" by (simp add: e_def)
    from True pe have "\<bar>x\<bar> * pow2 (52 - e) < pow2 (- 1022) * pow2 (52 - e)" by simp
    also have "\<dots> = 2 ^ 52" unfolding e by (simp only: pow2_mult_cancel [of "- 1022"])
    finally have "\<bar>x * pow2 (52 - e)\<bar> \<le> of_int (2 ^ 52)" unfolding az by simp
    moreover have "of_int 0 \<le> \<bar>x * pow2 (52 - e)\<bar>" by simp
    ultimately have "\<bar>m\<bar> \<le> 2 ^ 52" unfolding m_def using rhe_abs_bounds by blast
    with e show ?thesis by simp
  next
    case False
    then have lo: "pow2 (- 1022) \<le> \<bar>x\<bar>" by simp
    have "pow2 (- int 1100) \<le> pow2 (- 1022)" by (intro pow2_mono) simp
    with lo have a: "1 / 2 ^ 1100 \<le> \<bar>x\<bar>" unfolding pow2_neg_nat by simp
    have "(2::real) ^ 1024 \<le> 2 ^ 1101" by (rule power_increasing) simp_all
    with assms have b: "\<bar>x\<bar> < 2 ^ 1101" by (rule less_le_trans)
    from exponent_bounds [OF a b]
    have c: "pow2 (exponent x) \<le> \<bar>x\<bar>" and d: "\<bar>x\<bar> < 2 * pow2 (exponent x)" by simp_all
    from lo d have "pow2 (- 1022) < pow2 (exponent x + 1)" by (simp add: pow2_Suc)
    then have "- 1022 < exponent x + 1" by (rule pow2_less)
    then have e: "e = exponent x" and e1: "- 1022 \<le> e" by (simp_all add: e_def)
    have "(2::real) ^ 1024 = pow2 (int 1024)" by (simp only: pow2_nat)
    with c assms have "pow2 (exponent x) < pow2 (int 1024)" by simp
    then have "exponent x < int 1024" by (rule pow2_less)
    with e have e2: "e \<le> 1023" by simp
    from c pe have "pow2 e * pow2 (52 - e) \<le> \<bar>x\<bar> * pow2 (52 - e)" unfolding e by simp
    then have l: "of_int (2 ^ 52) \<le> \<bar>x * pow2 (52 - e)\<bar>"
      unfolding az pow2_mult_cancel by simp
    from d pe have "\<bar>x\<bar> * pow2 (52 - e) < 2 * pow2 e * pow2 (52 - e)" unfolding e by simp
    also have "\<dots> = 2 * (pow2 e * pow2 (52 - e))" by simp
    also have "\<dots> = 2 ^ 53" unfolding pow2_mult_cancel by simp
    finally have u: "\<bar>x * pow2 (52 - e)\<bar> \<le> of_int (2 ^ 53)" unfolding az by simp
    from rhe_abs_bounds [OF l u] have "2 ^ 52 \<le> \<bar>m\<bar>" "\<bar>m\<bar> \<le> 2 ^ 53"
      unfolding m_def by simp_all
    with e1 e2 show ?thesis by simp
  qed
  then show ?thesis unfolding td by (intro to_double_fix) simp_all
qed

lemma fdiv_one: "\<bar>x\<bar> < 2 ^ 1024 \<Longrightarrow> fdiv (to_double x) 1 = to_double x"
  by (simp add: fdiv_def to_double_idem)

section \<open>Properties of the dict model\<close>

lemma dict_get_set: "dict_get (dict_set d k v) k' = (if k' = k then Some v else dict_get d k')"
  by (induction d) (auto simp: dict_get_def)

lemma dict_set_keys:
  "map fst (dict_set d k v) = (if k \<in> set (map fst d) then map fst d else map fst d @ [k])"
  by (induction d) auto

lemma dict_set_absent: "dict_get d k = None \<Longrightarrow> dict_set d k v = d @ [(k, v)]"
  by (induction d) (auto simp: dict_get_def split: if_splits)

lemma float_le_not_gt: "float_le a b \<Longrightarrow> \<not> float_gt a b"
  by (cases a; cases b) auto

section \<open>Properties of \<open>update\<close>\<close>

lemma wf_init: "wf (init t)"
  by (simp add: wf_def init_def)

lemma wf_update: "wf e \<Longrightarrow> wf (snd (update pid nm sc timestamp e))"
  by (auto simp: wf_def update_def Let_def dict_set_keys)

lemma update_accepted:
  assumes "\<forall>old. dict_get (scores e) pid = Some old \<longrightarrow> float_gt timestamp (ts old)"
  shows "fst (update pid nm sc timestamp e) = \<lparr>status = ''accepted'', current_score = sc\<rparr>"
    and "dict_get (scores (snd (update pid nm sc timestamp e))) pid =
           Some \<lparr>score = sc, name = nm, ts = timestamp\<rparr>"
  using assms by (cases "dict_get (scores e) pid"; simp add: update_def dict_get_set)+

lemma update_count_step:
  "update_count (snd (update pid nm sc timestamp e)) =
     update_count e + (if accepted (fst (update pid nm sc timestamp e)) then 1 else 0)"
  by (simp add: update_def accepted_def Let_def)

lemma update_status:
  "status (fst (update pid nm sc timestamp e)) = ''accepted''
   \<or> status (fst (update pid nm sc timestamp e)) = ''rejected''"
  by (simp add: update_def Let_def)

lemma update_keeps_key:
  "dict_get (scores e) k \<noteq> None \<Longrightarrow> dict_get (scores (snd (update pid nm sc t e))) k \<noteq> None"
  by (simp add: update_def Let_def dict_get_set)

lemma update_other_key:
  "pid \<noteq> k \<Longrightarrow> dict_get (scores (snd (update pid nm sc t e))) k = dict_get (scores e) k"
  by (simp add: update_def Let_def dict_get_set)

lemma update_absent_accepted:
  "dict_get (scores e) k = None \<Longrightarrow>
     accepted (fst (update k nm sc t e)) \<and> dict_get (scores (snd (update k nm sc t e))) k \<noteq> None"
  by (simp add: update_def accepted_def dict_get_set)

section \<open>Properties of histories\<close>

lemma apply_updates_Cons:
  "apply_updates ((pid, nm, sc, t) # us) e =
     (fst (update pid nm sc t e) # fst (apply_updates us (snd (update pid nm sc t e))),
      snd (apply_updates us (snd (update pid nm sc t e))))"
  by (simp split: prod.splits)

lemma wf_apply_updates: "wf e \<Longrightarrow> wf (snd (apply_updates us e))"
proof (induction us arbitrary: e)
  case Nil
  then show ?case by simp
next
  case (Cons u us)
  obtain pid nm sc t where u: "u = (pid, nm, sc, t)" by (cases u) auto
  from Cons.IH [OF wf_update [OF Cons.prems, of pid nm sc t]] show ?case
    by (simp only: u apply_updates_Cons snd_conv)
qed

lemma apply_updates_count:
  "update_count (snd (apply_updates us e)) =
     update_count e + int (length (filter accepted (fst (apply_updates us e))))"
proof (induction us arbitrary: e)
  case Nil
  then show ?case by simp
next
  case (Cons u us)
  obtain pid nm sc t where u: "u = (pid, nm, sc, t)" by (cases u) auto
  show ?case
    using Cons.IH [of "snd (update pid nm sc t e)"] update_count_step [of pid nm sc t e]
    by (simp add: u apply_updates_Cons del: apply_updates.simps(2))
qed

lemma apply_updates_keeps_key:
  "dict_get (scores e) k \<noteq> None \<Longrightarrow> dict_get (scores (snd (apply_updates us e))) k \<noteq> None"
proof (induction us arbitrary: e)
  case Nil
  then show ?case by simp
next
  case (Cons u us)
  obtain pid nm sc t where u: "u = (pid, nm, sc, t)" by (cases u) auto
  from Cons.IH [OF update_keeps_key [OF Cons.prems, of pid nm sc t]] show ?case
    by (simp add: u apply_updates_Cons del: apply_updates.simps(2))
qed

text \<open>From a store without player \<open>k\<close>, the player is absent exactly as long as no update for it was accepted.\<close>

lemma absent_iff_never_accepted:
  assumes "dict_get (scores e) k = None"
  shows "(dict_get (scores (snd (apply_updates us e))) k = None) =
           (\<not> accepted_for k us (fst (apply_updates us e)))"
  using assms
proof (induction us arbitrary: e)
  case Nil
  then show ?case by (simp add: accepted_for_def)
next
  case (Cons u us)
  obtain pid nm sc t where u: "u = (pid, nm, sc, t)" by (cases u) auto
  show ?case
  proof (cases "pid = k")
    case True
    from update_absent_accepted [OF Cons.prems, of nm sc t]
    have a: "accepted (fst (update k nm sc t e))"
      and p: "dict_get (scores (snd (update k nm sc t e))) k \<noteq> None" by simp_all
    from apply_updates_keeps_key [OF p, of us] a show ?thesis
      by (simp add: u True apply_updates_Cons accepted_for_def del: apply_updates.simps(2))
  next
    case False
    then have "dict_get (scores (snd (update pid nm sc t e))) k = None"
      using Cons.prems by (simp add: update_other_key)
    from Cons.IH [OF this] False show ?thesis
      by (simp add: u apply_updates_Cons accepted_for_def del: apply_updates.simps(2))
  qed
qed

section \<open>Properties of the ranking\<close>

lemma slice_to_take: "\<exists>k. slice_to xs n = take k xs"
  by (auto simp: slice_to_def)

lemma length_slice_to: "0 \<le> n \<Longrightarrow> length (slice_to xs n) = min (nat n) (length xs)"
  by (simp add: slice_to_def min.commute)

lemma number_aux_player_id:
  "map player_id (map (\<lambda>(i, x). x\<lparr>rank := int i\<rparr>) (enumerate k xs)) = map player_id xs"
  by (induction xs arbitrary: k) auto

lemma number_aux_e_score:
  "map e_score (map (\<lambda>(i, x). x\<lparr>rank := int i\<rparr>) (enumerate k xs)) = map e_score xs"
  by (induction xs arbitrary: k) auto

lemma number_aux_rank:
  "map rank (map (\<lambda>(i, x). x\<lparr>rank := int i\<rparr>) (enumerate k xs)) = map int [k..<k + length xs]"
  by (induction xs arbitrary: k) (auto simp: upt_rec)

lemma number_aux_mem:
  assumes "a \<in> set (map (\<lambda>(i, x). x\<lparr>rank := int i\<rparr>) (enumerate k xs))"
  shows "\<exists>x\<in>set xs. \<exists>i. a = x\<lparr>rank := i\<rparr>"
proof -
  from assms obtain p where p: "p \<in> set (enumerate k xs)" "a = (snd p)\<lparr>rank := int (fst p)\<rparr>"
    by (auto simp: case_prod_unfold)
  from p(1) have "snd p \<in> set (map snd (enumerate k xs))" by (simp del: map_snd_enumerate)
  then have "snd p \<in> set xs" by simp
  with p(2) show ?thesis by blast
qed

lemma length_number: "length (number xs) = length xs"
  by (simp add: number_def)

lemma player_id_number: "map player_id (number xs) = map player_id xs"
  by (simp add: number_def number_aux_player_id del: map_map)

lemma e_score_number: "map e_score (number xs) = map e_score xs"
  by (simp add: number_def number_aux_e_score del: map_map)

lemma rank_number: "map rank (number xs) = map int [1..<Suc (length xs)]"
  by (simp add: number_def number_aux_rank del: map_map)

lemma number_mem: "a \<in> set (number xs) \<Longrightarrow> \<exists>x\<in>set xs. \<exists>i. a = x\<lparr>rank := i\<rparr>"
  unfolding number_def by (rule number_aux_mem)

lemma ranked_sorted: "sorted_wrt (\<lambda>a b. e_score b \<le> e_score a) (ranked e)"
proof -
  have "sorted (map (\<lambda>x. - e_score x) (ranked e))"
    unfolding ranked_def by (rule sorted_sort_key)
  then show ?thesis by (simp add: sorted_map)
qed

lemma set_ranked: "set (ranked e) = row ` set (scores e)"
  by (simp add: ranked_def)

lemma length_ranked: "length (ranked e) = length (scores e)"
  by (simp add: ranked_def)

lemma player_id_row: "player_id (row p) = fst p"
  by (cases p) simp

lemma ranked_distinct:
  assumes "wf e"
  shows "distinct (map player_id (ranked e))"
proof -
  have "mset (map player_id (ranked e)) = image_mset player_id (mset (map row (scores e)))"
    by (simp add: ranked_def)
  also have "\<dots> = mset (map fst (scores e))"
    by (simp add: player_id_row multiset.map_comp comp_def)
  finally show ?thesis using assms unfolding wf_def by (metis mset_eq_imp_distinct_iff)
qed

lemma sorted_wrt_e_score:
  "sorted_wrt (\<lambda>a b. e_score b \<le> e_score a) xs = sorted_wrt (\<lambda>a b. b \<le> a) (map e_score xs)"
  by (simp add: sorted_wrt_map)

lemma dict_keys_card:
  assumes "wf e"
  shows "card {pid. dict_get (scores e) pid \<noteq> None} = length (scores e)"
proof -
  have "{pid. dict_get (scores e) pid \<noteq> None} = set (map fst (scores e))"
    by (auto simp: dict_get_def map_of_eq_None_iff)
  then show ?thesis using assms by (simp add: wf_def distinct_card del: set_map)
qed

section \<open>Properties of the handler\<close>

lemma handle_decode_error:
  "loads lib raw = Inl ex \<Longrightarrow> handle lib clk e raw = (Error ex, e)"
  by (simp add: handle_def dispatch_def raising_def)

lemma handle_not_object:
  "loads lib raw = Inr v \<Longrightarrow> \<forall>msg. v \<noteq> PDict msg \<Longrightarrow>
     handle lib clk e raw = (Error AttributeError, e)"
  by (cases v) (simp_all add: handle_def dispatch_def raising_def)

lemma handle_cmd_not_str:
  "loads lib raw = Inr (PDict msg) \<Longrightarrow> \<forall>c. get_default msg ''cmd'' (PStr '''') \<noteq> PStr c \<Longrightarrow>
     handle lib clk e raw = (Error AttributeError, e)"
  by (cases "get_default msg ''cmd'' (PStr '''')")
     (simp_all add: handle_def dispatch_def raising_def)

lemma dispatch_cmd:
  assumes "loads lib raw = Inr (PDict msg)" and "get_default msg ''cmd'' (PStr '''') = PStr c"
  shows "dispatch lib clk e raw =
          (if upper lib c = ''UPDATE'' then cmd_update lib clk e msg
           else if upper lib c = ''GET_TOP'' then cmd_get_top lib e msg
           else if upper lib c = ''GET_PLAYER'' then cmd_get_player e msg
           else if upper lib c = ''STATS'' then (Inr (StatsData (fst (stats (now clk) e))), e)
           else if upper lib c = ''PING'' then (Inr (PongData (now clk)), e)
           else (Inr (ErrorData (''unknown command: '' @ upper lib c)), e))"
  using assms by (simp add: dispatch_def raising_def Let_def stats_def)

lemma handle_unknown:
  assumes "loads lib raw = Inr (PDict msg)" and "get_default msg ''cmd'' (PStr '''') = PStr c"
    and "upper lib c \<notin> commands"
  shows "handle lib clk e raw =
           (Ok (latency_ms clk) (ErrorData (''unknown command: '' @ upper lib c)), e)"
  using assms(3) by (simp add: handle_def dispatch_cmd [OF assms(1,2)] commands_def)

lemma cmd_update_error_frame:
  "fst (cmd_update lib clk e msg) = Inl ex \<Longrightarrow> snd (cmd_update lib clk e msg) = e"
  by (auto simp: cmd_update_def raising_def get_top_def split: sum.splits prod.splits)

lemma cmd_get_top_frame: "snd (cmd_get_top lib e msg) = e"
  by (auto simp: cmd_get_top_def raising_def get_top_def split: sum.splits prod.splits)

lemma cmd_get_player_frame: "snd (cmd_get_player e msg) = e"
  by (auto simp: cmd_get_player_def raising_def get_player_def split: sum.splits prod.splits)

lemma dispatch_error_frame:
  assumes "fst (dispatch lib clk e raw) = Inl ex"
  shows "snd (dispatch lib clk e raw) = e"
proof (cases "loads lib raw")
  case (Inl a)
  then show ?thesis by (simp add: dispatch_def raising_def)
next
  case (Inr v)
  show ?thesis
  proof (cases "\<exists>msg c. v = PDict msg \<and> get_default msg ''cmd'' (PStr '''') = PStr c")
    case True
    then obtain msg c where v: "v = PDict msg" "get_default msg ''cmd'' (PStr '''') = PStr c"
      by blast
    from Inr v have l: "loads lib raw = Inr (PDict msg)" by simp
    show ?thesis using assms cmd_update_error_frame [of lib clk e msg ex]
      by (simp add: dispatch_cmd [OF l v(2)] cmd_get_top_frame cmd_get_player_frame
          split: if_splits)
  next
    case False
    then show ?thesis using Inr
      by (cases v) (auto simp: dispatch_def raising_def split: pyval.splits)
  qed
qed

text \<open>No reply with status \<open>error\<close> comes with a changed engine.\<close>

lemma handle_error_frame:
  assumes "resp_status (fst (handle lib clk e raw)) = ''error''"
  shows "snd (handle lib clk e raw) = e"
proof -
  obtain r e1 where d: "dispatch lib clk e raw = (r, e1)" by (cases "dispatch lib clk e raw")
  with assms obtain ex where "r = Inl ex" by (cases r) (auto simp: handle_def)
  with d dispatch_error_frame [of lib clk e raw ex] show ?thesis by (simp add: handle_def)
qed

lemma handle_update_args:
  assumes "loads lib raw = Inr (PDict msg)" and "get_default msg ''cmd'' (PStr '''') = PStr c"
    and "upper lib c = ''UPDATE''"
  shows "dict_get msg ''player_id'' = None \<Longrightarrow>
           handle lib clk e raw = (Error (KeyError ''player_id''), e)"
    and "dict_get msg ''player_id'' = Some pid \<Longrightarrow> dict_get msg ''score'' = None \<Longrightarrow>
           handle lib clk e raw = (Error (KeyError ''score''), e)"
    and "dict_get msg ''player_id'' = Some pid \<Longrightarrow> dict_get msg ''score'' = Some sv \<Longrightarrow>
           py_int lib sv = Inl ex \<Longrightarrow> handle lib clk e raw = (Error ex, e)"
    and "dict_get msg ''player_id'' = Some pid \<Longrightarrow> dict_get msg ''score'' = Some sv \<Longrightarrow>
           py_int lib sv = Inr sc \<Longrightarrow>
           py_float lib (get_default msg ''ts'' (PFloat (Fin (now clk)))) = Inl ex \<Longrightarrow>
           handle lib clk e raw = (Error ex, e)"
    and "dict_get msg ''player_id'' = Some pid \<Longrightarrow> dict_get msg ''score'' = Some sv \<Longrightarrow>
           py_int lib sv = Inr sc \<Longrightarrow>
           py_float lib (get_default msg ''ts'' (PFloat (Fin (now clk)))) = Inr timestamp \<Longrightarrow>
           hashable pid = None \<Longrightarrow>
           handle lib clk e raw = (Error TypeError, e)"
    and "dict_get msg ''player_id'' = Some pid \<Longrightarrow> dict_get msg ''score'' = Some sv \<Longrightarrow>
           py_int lib sv = Inr sc \<Longrightarrow>
           py_float lib (get_default msg ''ts'' (PFloat (Fin (now clk)))) = Inr timestamp \<Longrightarrow>
           hashable pid = Some k \<Longrightarrow>
           handle lib clk e raw =
             (Ok (latency_ms clk)
                (UpdateData (fst (update k (get_default msg ''name'' pid) sc timestamp e))
                   (fst (get_top TOP_N
                          (snd (update k (get_default msg ''name'' pid) sc timestamp e))))),
              snd (update k (get_default msg ''name'' pid) sc timestamp e))"
  using assms(3)
  by (simp_all add: handle_def dispatch_cmd [OF assms(1,2)] cmd_update_def raising_def
      getitem_def key_of_def get_top_def split: prod.splits)

lemma handle_get_player:
  assumes "loads lib raw = Inr (PDict msg)" and "get_default msg ''cmd'' (PStr '''') = PStr c"
    and "upper lib c = ''GET_PLAYER''"
  shows "dict_get msg ''player_id'' = None \<Longrightarrow>
           handle lib clk e raw = (Error (KeyError ''player_id''), e)"
    and "dict_get msg ''player_id'' = Some pid \<Longrightarrow> hashable pid = None \<Longrightarrow>
           handle lib clk e raw = (Error TypeError, e)"
    and "dict_get msg ''player_id'' = Some pid \<Longrightarrow> hashable pid = Some k \<Longrightarrow>
           handle lib clk e raw =
             (Ok (latency_ms clk)
                (case dict_get (scores e) k of
                   None \<Rightarrow> ErrorData ''player not found''
                 | Some d \<Rightarrow> PlayerData d), e)"
  using assms(3)
  by (simp_all add: handle_def dispatch_cmd [OF assms(1,2)] cmd_get_player_def raising_def
      getitem_def key_of_def get_player_def split: prod.splits)

section \<open>Properties of the read loop\<close>

lemma state_on_line: "state (on_line lib clocks line s) = state s"
  by (simp add: on_line_def Let_def split: prod.splits)

lemma state_drain: "state (drain lib clocks s) = state s"
proof (induction lib clocks s rule: drain.induct)
  case (1 lib clocks s)
  show ?case
  proof (cases "newline \<in> set (buf s)")
    case True
    with "1.IH" show ?thesis
      by (subst drain.simps) (simp add: state_on_line)
  next
    case False
    then show ?thesis by (subst drain.simps) simp
  qed
qed

lemma drain_one_frame:
  assumes "newline \<notin> set frame"
  shows "drain lib clocks (s\<lparr>buf := frame @ [newline]\<rparr>) =
           on_line lib clocks frame (s\<lparr>buf := []\<rparr>)"
proof -
  have tw: "takeWhile (\<lambda>c. c \<noteq> newline) (frame @ [newline]) = frame"
    using assms by (induction frame) auto
  have dw: "dropWhile (\<lambda>c. c \<noteq> newline) (frame @ [newline]) = [newline]"
    using assms by (induction frame) auto
  have "drain lib clocks (s\<lparr>buf := frame @ [newline]\<rparr>) =
          drain lib clocks (on_line lib clocks frame (s\<lparr>buf := []\<rparr>))"
    by (subst drain.simps) (simp add: tw dw)
  also have "\<dots> = on_line lib clocks frame (s\<lparr>buf := []\<rparr>)"
    by (subst drain.simps) (simp add: buf_on_line)
  finally show ?thesis .
qed

text \<open>A chunk that completes exactly one frame: the frame is handled and answered once.\<close>

lemma on_recv_frame:
  assumes "buf s @ chunk = frame @ [newline]" and "chunk \<noteq> []" and "newline \<notin> set frame"
    and "strip lib frame \<noteq> []"
  shows "on_recv lib clocks (Chunk chunk) s =
           s\<lparr>shared := snd (handle lib (clocks (length (sent s))) (shared s) (strip lib frame)),
             buf := [],
             sent := sent s @
               [fst (handle lib (clocks (length (sent s))) (shared s) (strip lib frame))]\<rparr>"
proof -
  have "on_recv lib clocks (Chunk chunk) s = drain lib clocks (s\<lparr>buf := frame @ [newline]\<rparr>)"
    using assms(1,2) by (simp add: on_recv_def)
  also have "\<dots> = on_line lib clocks frame (s\<lparr>buf := []\<rparr>)"
    by (rule drain_one_frame [OF assms(3)])
  finally show ?thesis using assms(4)
    by (simp add: on_line_def split: prod.splits)
qed

text \<open>Only an empty read or a failure of the transport closes the session.\<close>

lemma on_recv_state: "chunk \<noteq> [] \<Longrightarrow> state (on_recv lib clocks (Chunk chunk) s) = state s"
  by (simp add: on_recv_def state_drain)

lemma on_read_text:
  "decode lib bs = Inr chunk \<Longrightarrow>
     on_read lib clocks (Received bs) s = on_recv lib clocks (Chunk chunk) s"
  by (simp add: on_read_def)

lemma on_read_state:
  "decode lib bs = Inr chunk \<Longrightarrow> chunk \<noteq> [] \<Longrightarrow>
     state (on_read lib clocks (Received bs) s) = state s"
  by (simp add: on_read_text on_recv_state)

text \<open>Bytes that do not decode end the session: nothing is handled, nothing is sent.\<close>

lemma on_read_undecodable:
  "decode lib bs = Inl ex \<Longrightarrow> on_read lib clocks (Received bs) s = s\<lparr>state := Closed\<rparr>"
  by (simp add: on_read_def on_recv_def)

section \<open>The concrete inputs, evaluated\<close>

lemma one_player_eq:
  "one_player =
     \<lparr>scores = [(KStr ''p1'', \<lparr>score = 10, name = PStr ''Ann'', ts = Fin 1\<rparr>)],
      update_count = 1, start_time = 0\<rparr>"
  by (simp add: one_player_def update_def init_def dict_get_def)

lemma tied_board_eq:
  "tied_board =
     \<lparr>scores = [(KStr ''a'', \<lparr>score = 5, name = PStr ''Ann'', ts = Fin 1\<rparr>),
                (KStr ''b'', \<lparr>score = 5, name = PStr ''Bob'', ts = Fin 2\<rparr>)],
      update_count = 2, start_time = 0\<rparr>"
  by (simp add: tied_board_def update_def init_def dict_get_def)

lemma wf_one_player: "wf one_player"
  unfolding one_player_def by (rule wf_apply_updates [OF wf_init])

lemma wf_tied_board: "wf tied_board"
  unfolding tied_board_def by (rule wf_apply_updates [OF wf_init])

lemmas frame_defs =
  frame_dance_def frame_list_def frame_cmd_number_def frame_numeric_id_def frame_no_id_def
  frame_no_score_def frame_null_score_def frame_list_id_def frame_lookup_no_id_def
  frame_ghost_def frame_p1_def frame_update_list_id_def frame_null_ts_def frame_bool_id_def

lemma loads_demo:
  "loads demo_lib frame_dance = Inr (PDict [(''cmd'', PStr ''dance'')])"
  "loads demo_lib frame_list = Inr (PList [PInt 1, PInt 2])"
  "loads demo_lib frame_cmd_number = Inr (PDict [(''cmd'', PInt 5)])"
  "loads demo_lib frame_numeric_id =
     Inr (PDict [(''cmd'', PStr ''UPDATE''), (''player_id'', PInt 7), (''score'', PInt 1),
                 (''ts'', PFloat (Fin 2))])"
  "loads demo_lib frame_no_id = Inr (PDict [(''cmd'', PStr ''UPDATE''), (''score'', PInt 5)])"
  "loads demo_lib frame_no_score =
     Inr (PDict [(''cmd'', PStr ''update''), (''player_id'', PStr ''p1'')])"
  "loads demo_lib frame_null_score =
     Inr (PDict [(''cmd'', PStr ''UPDATE''), (''player_id'', PStr ''p1''), (''score'', PNone)])"
  "loads demo_lib frame_list_id =
     Inr (PDict [(''cmd'', PStr ''GET_PLAYER''), (''player_id'', PList [PInt 1])])"
  "loads demo_lib frame_lookup_no_id = Inr (PDict [(''cmd'', PStr ''GET_PLAYER'')])"
  "loads demo_lib frame_ghost =
     Inr (PDict [(''cmd'', PStr ''get_player''), (''player_id'', PStr ''ghost'')])"
  "loads demo_lib frame_p1 =
     Inr (PDict [(''cmd'', PStr ''GET_PLAYER''), (''player_id'', PStr ''p1'')])"
  "loads demo_lib ''hello'' = Inl JSONDecodeError"
  "loads demo_lib frame_update_list_id =
     Inr (PDict [(''cmd'', PStr ''UPDATE''), (''player_id'', PList [PInt 1]), (''score'', PInt 3),
                 (''ts'', PFloat (Fin (19 / 2)))])"
  "loads demo_lib frame_null_ts =
     Inr (PDict [(''cmd'', PStr ''UPDATE''), (''player_id'', PStr ''p1''), (''score'', PInt 3),
                 (''ts'', PNone)])"
  "loads demo_lib frame_bool_id =
     Inr (PDict [(''cmd'', PStr ''UPDATE''), (''player_id'', PBool True), (''score'', PInt 4),
                 (''ts'', PFloat (Fin (5 / 2)))])"
  by (simp_all add: demo_lib_def decoded_def frame_defs)

lemma upper_demo: "upper demo_lib = ascii_upper"
  by (simp add: demo_lib_def)

lemma strip_demo: "strip demo_lib = ascii_strip"
  by (simp add: demo_lib_def)

lemma latency_demo: "latency_ms demo_clock = 125"
  by (simp add: latency_ms_def demo_clock_def float_eval)

text \<open>The figures of \<open>stats\<close> on the store with one player.\<close>

lemma stats_fields:
  "total_players (fst (stats tm e)) = int (length (scores e))"
  "total_updates (fst (stats tm e)) = update_count e"
  "uptime_seconds (fst (stats tm e)) = py_round (fsub tm (start_time e)) 2"
  "updates_per_sec (fst (stats tm e)) =
     py_round (fdiv (to_double (of_int (update_count e))) (max (fsub tm (start_time e)) 1)) 2"
  by (simp_all add: stats_def Let_def)

lemma one_player_fields:
  "length (scores one_player) = 1" "update_count one_player = 1" "start_time one_player = 0"
  by (simp_all add: one_player_eq)

lemma to_double_1: "to_double 1 = 1"
  by (simp add: float_eval)

lemma stats_3:
  "uptime_seconds (fst (stats 3 one_player)) = 3"
  "updates_per_sec (fst (stats 3 one_player)) = 5944751508129055 / 18014398509481984"
proof -
  have el: "fsub 3 0 = 3" by (simp add: float_eval)
  have r1: "py_round 3 2 = 3" by (simp add: float_eval)
  have r2: "py_round (fdiv 1 (max 3 1)) 2 = 5944751508129055 / 18014398509481984"
    by (simp add: float_eval)
  show "uptime_seconds (fst (stats 3 one_player)) = 3"
    by (simp only: stats_fields one_player_fields el r1)
  show "updates_per_sec (fst (stats 3 one_player)) = 5944751508129055 / 18014398509481984"
    by (simp only: stats_fields one_player_fields of_int_1 to_double_1 el r2)
qed

lemma stats_8:
  "uptime_seconds (fst (stats (2047 / 256) one_player)) = 8"
  "updates_per_sec (fst (stats (2047 / 256) one_player)) = 1170935903116329 / 9007199254740992"
proof -
  have el: "fsub (2047 / 256) 0 = 2047 / 256" by (simp add: float_eval)
  have r1: "py_round (2047 / 256) 2 = 8" by (simp add: float_eval)
  have r2: "py_round (fdiv 1 (max (2047 / 256) 1)) 2 = 1170935903116329 / 9007199254740992"
    by (simp add: float_eval)
  show "uptime_seconds (fst (stats (2047 / 256) one_player)) = 8"
    by (simp only: stats_fields one_player_fields el r1)
  show "updates_per_sec (fst (stats (2047 / 256) one_player)) =
      1170935903116329 / 9007199254740992"
    by (simp only: stats_fields one_player_fields of_int_1 to_double_1 el r2)
qed

lemma quotients:
  "fdiv 1 (max 3 1) = 6004799503160661 / 18014398509481984"
  "py_round (fdiv 1 (max 8 1)) 2 = 1080863910568919 / 9007199254740992"
  by (simp_all add: float_eval)

lemma ne1: "(5944751508129055 / 18014398509481984 :: real) \<noteq> 1 / max 3 1"
  by simp
lemma ne2: "(5944751508129055 / 18014398509481984 :: real) \<noteq> 6004799503160661 / 18014398509481984"
  by simp

text \<open>
  Doubles at work. One update after 200 seconds gives 0.01 and after 40 seconds 0.03,
  three updates after 40 seconds give 0.07 (the exact quotients 0.005, 0.025 and 0.075
  would give 0.0, 0.02 and 0.08); a handling of 62.5 microseconds, read as the double
  nearest to 0.0000625, is reported as 0.062 milliseconds.
\<close>

lemma double_examples:
  "py_round (fdiv (to_double 1) (max (fsub 200 0) 1)) 2 = 5764607523034235 / 576460752303423488"
  "py_round (fdiv (to_double 1) (max (fsub 40 0) 1)) 2 = 1080863910568919 / 36028797018963968"
  "py_round (fdiv (to_double 3) (max (fsub 40 0) 1)) 2 = 1261007895663739 / 18014398509481984"
  "latency_ms \<lparr>now = 0, t0 = 0, t1 = 1152921504606847 / 18446744073709551616\<rparr> =
     1116892707587883 / 18014398509481984"
  by (simp_all add: latency_ms_def float_eval)

section \<open>Properties of the heap model\<close>

lemma set_rank_apply:
  "set_rank (i, a) h x = (if x = a then (h a)\<lparr>o_rank := Some (int i)\<rparr> else h x)"
  by (simp add: set_rank_def)

lemma fold_set_rank_other:
  "x \<notin> set as \<Longrightarrow> fold set_rank (enumerate k as) h x = h x"
  by (induction as arbitrary: k h) (auto simp: set_rank_apply)

lemma fold_set_rank_nth:
  "distinct as \<Longrightarrow> j < length as \<Longrightarrow>
     fold set_rank (enumerate k as) h (as ! j) = (h (as ! j))\<lparr>o_rank := Some (int (k + j))\<rparr>"
proof (induction as arbitrary: k h j)
  case Nil
  then show ?case by simp
next
  case (Cons a as)
  show ?case
  proof (cases j)
    case 0
    with Cons.prems show ?thesis by (simp add: fold_set_rank_other set_rank_apply)
  next
    case (Suc j')
    with Cons.prems have ne: "as ! j' \<noteq> a" by auto
    from Cons.prems Suc have "distinct as" "j' < length as" by simp_all
    from Cons.IH [OF this, of "Suc k" "set_rank (k, a) h"]
    have "fold set_rank (enumerate (Suc k) as) (set_rank (k, a) h) (as ! j') =
        (set_rank (k, a) h (as ! j'))\<lparr>o_rank := Some (int (Suc k + j'))\<rparr>" .
    moreover have "set_rank (k, a) h (as ! j') = h (as ! j')"
      using ne by (simp add: set_rank_apply)
    ultimately show ?thesis using Suc by simp
  qed
qed

lemma fold_set_rank_map:
  assumes "distinct as"
  shows "map (fold set_rank (enumerate k as) h) as =
           map (\<lambda>(i, a). (h a)\<lparr>o_rank := Some (int i)\<rparr>) (enumerate k as)"
  by (rule nth_equalityI) (simp_all add: fold_set_rank_nth [OF assms] nth_enumerate_eq)

lemma insort_key_map_comm:
  "map g (insort_key (\<lambda>x. f (g x)) x xs) = insort_key f (g x) (map g xs)"
  by (induction xs) auto

lemma sort_key_map_comm: "map g (sort_key (\<lambda>x. f (g x)) xs) = sort_key f (map g xs)"
  by (induction xs) (auto simp: insort_key_map_comm)

lemma slice_to_map: "slice_to (map g xs) n = map g (slice_to xs n)"
  by (simp add: slice_to_def take_map)

lemma alloc_addrs: "map (alloc objs base h) [base ..< base + length objs] = objs"
proof (rule nth_equalityI)
  show "length (map (alloc objs base h) [base ..< base + length objs]) = length objs" by simp
next
  fix i assume "i < length (map (alloc objs base h) [base ..< base + length objs])"
  then show "map (alloc objs base h) [base ..< base + length objs] ! i = objs ! i"
    by (simp add: alloc_def)
qed

lemma alloc_below: "a < base \<Longrightarrow> alloc objs base h a = h a"
  by (simp add: alloc_def)

lemma number_row_obj:
  "map (\<lambda>(i, x). x\<lparr>o_rank := Some (int i)\<rparr>) (enumerate k (map row_obj xs)) =
     map row_obj (map (\<lambda>(i, x). x\<lparr>rank := int i\<rparr>) (enumerate k xs))"
  by (induction xs arbitrary: k) (auto simp: row_obj_def)


lemma enumerate_map_snd:
  "map (\<lambda>(i, a). f i (g a)) (enumerate k as) = map (\<lambda>(i, x). f i x) (enumerate k (map g as))"
  by (induction as arbitrary: k) auto

lemma get_top_h_top:
  "fst (get_top_h n s) =
     slice_to (sort_key (\<lambda>a. - o_score (alloc (map (\<lambda>p. new_row p (heap s)) (refs s)) (free s) (heap s) a))
       [free s ..< free s + length (refs s)]) n"
  by (simp add: get_top_h_def Let_def)

lemma get_top_h_fresh: "a \<in> set (fst (get_top_h n s)) \<Longrightarrow> free s \<le> a"
proof -
  assume a: "a \<in> set (fst (get_top_h n s))"
  obtain k where "fst (get_top_h n s) =
      take k (sort_key (\<lambda>a. - o_score (alloc (map (\<lambda>p. new_row p (heap s)) (refs s)) (free s) (heap s) a))
       [free s ..< free s + length (refs s)])"
    unfolding get_top_h_top using slice_to_take by blast
  with a have "a \<in> set [free s ..< free s + length (refs s)]"
    by (auto dest: in_set_takeD)
  then show ?thesis by simp
qed

lemma get_top_h_distinct: "distinct (fst (get_top_h n s))"
proof -
  obtain k where "fst (get_top_h n s) =
      take k (sort_key (\<lambda>a. - o_score (alloc (map (\<lambda>p. new_row p (heap s)) (refs s)) (free s) (heap s) a))
       [free s ..< free s + length (refs s)])"
    unfolding get_top_h_top using slice_to_take by blast
  then show ?thesis by simp
qed

lemma get_top_h_frame:
  "a < free s \<Longrightarrow> heap (snd (get_top_h n s)) a = heap s a"
proof -
  assume a: "a < free s"
  then have "a \<notin> set (fst (get_top_h n s))" using get_top_h_fresh [of a n s] by auto
  then have "a \<notin> set (slice_to (sort_key (\<lambda>a. - o_score (alloc (map (\<lambda>p. new_row p (heap s)) (refs s)) (free s) (heap s) a))
       [free s ..< free s + length (refs s)]) n)"
    by (simp add: get_top_h_top)
  then show ?thesis using a
    by (simp add: get_top_h_def Let_def fold_set_rank_other alloc_below)
qed

lemma represents_rows:
  assumes "represents s e"
  shows "map (\<lambda>p. new_row p (heap s)) (refs s) = map row_obj (map row (scores e))"
proof -
  have "list_all2 (\<lambda>p q. fst p = fst q \<and> snd p < free s \<and> heap s (snd p) = stored_obj (snd q))
        (refs s) (scores e)"
    using assms by (simp add: represents_def)
  then have "map (\<lambda>p. new_row p (heap s)) (refs s) = map (\<lambda>q. row_obj (row q)) (scores e)"
  proof (induction rule: list_all2_induct)
    case Nil
    then show ?case by simp
  next
    case (Cons p ps q qs)
    obtain pid d where q: "q = (pid, d)" by (cases q)
    with Cons show ?case by (simp add: new_row_def row_obj_def stored_obj_def)
  qed
  then show ?thesis by simp
qed

lemma get_top_h_rows:
  assumes "represents s e"
  shows "map (heap (snd (get_top_h n s))) (fst (get_top_h n s)) = map row_obj (fst (get_top n e))"
proof -
  let ?rows = "map (\<lambda>p. new_row p (heap s)) (refs s)"
  let ?h1 = "alloc ?rows (free s) (heap s)"
  let ?addrs = "[free s ..< free s + length ?rows]"
  let ?sorted = "sort_key (\<lambda>a. - o_score (?h1 a)) ?addrs"
  let ?top = "slice_to ?sorted n"
  have top: "fst (get_top_h n s) = ?top" by (simp add: get_top_h_def Let_def)
  have h2: "heap (snd (get_top_h n s)) = fold set_rank (enumerate 1 ?top) ?h1"
    by (simp add: get_top_h_def Let_def)
  have d: "distinct ?top" using get_top_h_distinct [of n s] by (simp add: top)
  have a: "map ?h1 ?sorted = sort_key (\<lambda>x. - o_score x) (map ?h1 ?addrs)"
    by (rule sort_key_map_comm)
  have b: "map ?h1 ?addrs = ?rows" by (rule alloc_addrs)
  have c: "sort_key (\<lambda>x. - o_score x) ?rows =
      sort_key (\<lambda>x. - o_score x) (map row_obj (map row (scores e)))"
    by (simp only: represents_rows [OF assms])
  have "sort_key (\<lambda>x. - o_score x) (map row_obj (map row (scores e))) =
      map row_obj (sort_key (\<lambda>x. - o_score (row_obj x)) (map row (scores e)))"
    by (rule sort_key_map_comm [symmetric])
  also have "\<dots> = map row_obj (ranked e)" by (simp add: ranked_def row_obj_def)
  finally have c': "sort_key (\<lambda>x. - o_score x) (map row_obj (map row (scores e))) =
      map row_obj (ranked e)" .
  from a have a': "map ?h1 ?sorted = sort_key (\<lambda>x. - o_score x) ?rows" by (simp only: b)
  have s: "map ?h1 ?sorted = map row_obj (ranked e)"
    by (rule trans [OF a' trans [OF c c']])
  have "map ?h1 ?top = slice_to (map ?h1 ?sorted) n" by (simp only: slice_to_map)
  then have t: "map ?h1 ?top = map row_obj (slice_to (ranked e) n)" by (simp only: s slice_to_map)
  have "map (fold set_rank (enumerate 1 ?top) ?h1) ?top =
      map (\<lambda>(i, a). (?h1 a)\<lparr>o_rank := Some (int i)\<rparr>) (enumerate 1 ?top)"
    by (rule fold_set_rank_map [OF d])
  also have "\<dots> = map (\<lambda>(i, x). x\<lparr>o_rank := Some (int i)\<rparr>) (enumerate 1 (map ?h1 ?top))"
    by (rule enumerate_map_snd)
  also have "\<dots> = map row_obj (number (slice_to (ranked e) n))"
    by (simp only: t number_row_obj number_def)
  finally show ?thesis by (simp only: top h2 get_top_def fst_conv)
qed

lemma get_top_h_represents:
  assumes "represents s e"
  shows "represents (snd (get_top_h n s)) e"
proof -
  have r: "refs (snd (get_top_h n s)) = refs s" "free s \<le> free (snd (get_top_h n s))"
    "h_update_count (snd (get_top_h n s)) = h_update_count s"
    "h_start_time (snd (get_top_h n s)) = h_start_time s"
    by (simp_all add: get_top_h_def Let_def)
  have "list_all2 (\<lambda>p q. fst p = fst q \<and> snd p < free s \<and> heap s (snd p) = stored_obj (snd q))
        (refs s) (scores e)"
    using assms by (simp add: represents_def)
  then have "list_all2 (\<lambda>p q. fst p = fst q \<and> snd p < free (snd (get_top_h n s))
        \<and> heap (snd (get_top_h n s)) (snd p) = stored_obj (snd q)) (refs s) (scores e)"
    by (rule list_all2_mono) (use r(2) in \<open>auto simp: get_top_h_frame\<close>)
  then show ?thesis using assms by (simp add: represents_def r)
qed

section \<open>C1: stale updates are rejected\<close>

text \<open>
  C1. For a player already in the store, an update whose timestamp is less than or equal
  to the stored timestamp is rejected: the result is
  \<open>{"status": "rejected", "current_score": <stored score>}\<close> and the engine (the
  stored record, the whole mapping, \<open>update_count\<close>, \<open>start_time\<close>) is returned as it was.
\<close>

theorem update_stale_rejected:
  assumes "dict_get (scores e) pid = Some old"
    and "float_le timestamp (ts old)"
  shows "update pid nm sc timestamp e =
           (\<lparr>status = ''rejected'', current_score = score old\<rparr>, e)"
  using assms by (simp add: update_def float_le_not_gt)

text \<open>The tie: player \<open>p1\<close> is stored with timestamp 1 and is updated again at timestamp 1.\<close>

theorem update_stale_rejected_witness:
  "dict_get (scores one_player) (KStr ''p1'') =
     Some \<lparr>score = 10, name = PStr ''Ann'', ts = Fin 1\<rparr>
   \<and> float_le (Fin 1) (Fin 1)
   \<and> update (KStr ''p1'') (PStr ''Zed'') 99 (Fin 1) one_player =
       (\<lparr>status = ''rejected'', current_score = 10\<rparr>, one_player)"
proof -
  have h1: "dict_get (scores one_player) (KStr ''p1'') =
     Some \<lparr>score = 10, name = PStr ''Ann'', ts = Fin 1\<rparr>"
    by (simp add: one_player_eq dict_get_def)
  have h2: "float_le (Fin 1) (ts \<lparr>score = 10, name = PStr ''Ann'', ts = Fin 1\<rparr>)"
    by simp
  from update_stale_rejected [OF h1 h2, of "PStr ''Zed''" 99] h1 show ?thesis
    by simp
qed

section \<open>C2: last write wins\<close>

text \<open>
  C2. Let a non-empty sequence of updates of one player have strictly increasing
  timestamps, the first of them greater than the timestamp stored for the player, if the
  store has the player at all. Applied in order, every update is accepted and reports its
  own score as \<open>current_score\<close>, and afterwards the stored record is the score, name and
  timestamp of the last update.
\<close>

theorem lww_monotonic:
  assumes "us \<noteq> []"
    and "strictly_increasing (map (\<lambda>(nm, sc, t). t) us)"
    and "\<forall>old. dict_get (scores e) pid = Some old \<longrightarrow> float_gt (snd (snd (hd us))) (ts old)"
  shows "fst (apply_updates (for_player pid us) e) =
           map (\<lambda>(nm, sc, t). \<lparr>status = ''accepted'', current_score = sc\<rparr>) us
         \<and> dict_get (scores (snd (apply_updates (for_player pid us) e))) pid =
             Some \<lparr>score = fst (snd (last us)), name = fst (last us), ts = snd (snd (last us))\<rparr>"
  using assms
proof (induction us arbitrary: e)
  case Nil
  then show ?case by simp
next
  case (Cons u us)
  obtain nm sc t where u: "u = (nm, sc, t)" by (cases u) auto
  let ?e' = "snd (update pid nm sc t e)"
  from Cons.prems(3)
  have acc: "\<forall>old. dict_get (scores e) pid = Some old \<longrightarrow> float_gt t (ts old)"
    by (simp add: u)
  note a = update_accepted [OF acc, of nm sc]
  show ?case
  proof (cases "us = []")
    case True
    then show ?thesis using a
      by (simp add: u for_player_def apply_updates_Cons del: apply_updates.simps(2))
  next
    case False
    have inc: "strictly_increasing (map (\<lambda>(nm, sc, t). t) us)"
      using Cons.prems(2) by (simp add: strictly_increasing_def)
    have "float_gt (snd (snd (hd us))) t"
      using Cons.prems(2) False by (cases us) (auto simp: strictly_increasing_def u)
    then have nxt: "\<forall>old. dict_get (scores ?e') pid = Some old \<longrightarrow>
        float_gt (snd (snd (hd us))) (ts old)"
      by (simp add: a(2))
    from Cons.IH [OF False inc nxt] show ?thesis using a(1) False
      by (simp add: u for_player_def apply_updates_Cons del: apply_updates.simps(2))
  qed
qed

text \<open>Player \<open>p1\<close>, stored at timestamp 1, is updated at 2, 2.5 and infinity.\<close>

theorem lww_monotonic_witness:
  "climb \<noteq> []
   \<and> strictly_increasing (map (\<lambda>(nm, sc, t). t) climb)
   \<and> dict_get (scores one_player) (KStr ''p1'') =
       Some \<lparr>score = 10, name = PStr ''Ann'', ts = Fin 1\<rparr>
   \<and> float_gt (snd (snd (hd climb))) (Fin 1)
   \<and> map status (fst (apply_updates (for_player (KStr ''p1'') climb) one_player)) =
        [''accepted'', ''accepted'', ''accepted'']
   \<and> map current_score (fst (apply_updates (for_player (KStr ''p1'') climb) one_player)) =
        [12, 3, 20]
   \<and> dict_get (scores (snd (apply_updates (for_player (KStr ''p1'') climb) one_player)))
        (KStr ''p1'') = Some \<lparr>score = 20, name = PStr ''A'', ts = PInf\<rparr>"
proof -
  have h1: "climb \<noteq> []" by (simp add: climb_def)
  have h2: "strictly_increasing (map (\<lambda>(nm, sc, t). t) climb)"
    by (simp add: climb_def strictly_increasing_def)
  have h0: "dict_get (scores one_player) (KStr ''p1'') =
      Some \<lparr>score = 10, name = PStr ''Ann'', ts = Fin 1\<rparr>"
    by (simp add: one_player_eq dict_get_def)
  have h3: "\<forall>old. dict_get (scores one_player) (KStr ''p1'') = Some old \<longrightarrow>
      float_gt (snd (snd (hd climb))) (ts old)"
    by (simp add: h0) (simp add: climb_def)
  have h4: "float_gt (snd (snd (hd climb))) (Fin 1)" by (simp add: climb_def)
  from lww_monotonic [OF h1 h2 h3] h1 h2 h0 h4 show ?thesis
    by (simp add: climb_def)
qed

section \<open>C3: the ranking\<close>

text \<open>
  C3, as the code has it. For every store and every \<open>n\<close>, \<open>get_top n\<close> returns at most
  as many rows as there are players, and exactly \<open>min n player_count\<close> rows when
  \<open>0 \<le> n\<close>; the scores of the rows descend, equal scores allowed; the ranks are
  \<open>1, 2, ..., k\<close>; the rows are distinct players of the store with their stored name and
  score; and every stored player that is not returned has a score less than or equal to
  every returned score.
\<close>

theorem get_top_contract:
  assumes "wf e"
  shows "length (fst (get_top n e)) \<le> length (scores e)
    \<and> (0 \<le> n \<longrightarrow> length (fst (get_top n e)) = min (nat n) (length (scores e)))
    \<and> sorted_wrt (\<lambda>a b. e_score b \<le> e_score a) (fst (get_top n e))
    \<and> map rank (fst (get_top n e)) = map int [1..<Suc (length (fst (get_top n e)))]
    \<and> distinct (map player_id (fst (get_top n e)))
    \<and> (\<forall>a\<in>set (fst (get_top n e)). \<exists>d. dict_get (scores e) (player_id a) = Some d
           \<and> e_name a = name d \<and> e_score a = score d)
    \<and> (\<forall>pid d. dict_get (scores e) pid = Some d \<and> pid \<notin> player_id ` set (fst (get_top n e))
           \<longrightarrow> (\<forall>a\<in>set (fst (get_top n e)). score d \<le> e_score a))"
proof -
  obtain k where k: "slice_to (ranked e) n = take k (ranked e)" using slice_to_take by blast
  let ?top = "fst (get_top n e)"
  have top: "?top = number (take k (ranked e))" by (simp add: get_top_def k)
  have c1: "length ?top \<le> length (scores e)"
    by (simp add: top length_number length_ranked)
  have c2: "0 \<le> n \<longrightarrow> length ?top = min (nat n) (length (scores e))"
    by (simp add: get_top_def length_number length_slice_to length_ranked)
  have "sorted_wrt (\<lambda>a b. e_score b \<le> e_score a) (take k (ranked e))"
    using ranked_sorted by (rule sorted_wrt_take)
  then have c3: "sorted_wrt (\<lambda>a b. e_score b \<le> e_score a) ?top"
    by (simp add: sorted_wrt_e_score top e_score_number)
  have c4: "map rank ?top = map int [1..<Suc (length ?top)]"
    by (simp add: top rank_number length_number)
  have c5: "distinct (map player_id ?top)"
    using ranked_distinct [OF assms]
    by (simp add: top player_id_number take_map [symmetric] distinct_take)
  have c6: "\<exists>d. dict_get (scores e) (player_id a) = Some d \<and> e_name a = name d
      \<and> e_score a = score d"
    if "a \<in> set ?top" for a
  proof -
    from that obtain x i where x: "x \<in> set (take k (ranked e))" "a = x\<lparr>rank := i\<rparr>"
      unfolding top by (blast dest: number_mem)
    then have "x \<in> set (ranked e)" by (blast dest: in_set_takeD)
    then obtain pid d where pd: "(pid, d) \<in> set (scores e)" "x = row (pid, d)"
      by (auto simp: set_ranked)
    then have "dict_get (scores e) pid = Some d"
      using assms by (simp add: wf_def dict_get_def)
    then show ?thesis using x(2) pd(2) by simp
  qed
  have c7: "score d \<le> e_score a"
    if "dict_get (scores e) pid = Some d" "pid \<notin> player_id ` set ?top" "a \<in> set ?top"
    for pid d a
  proof -
    from that(1) have "(pid, d) \<in> set (scores e)" by (simp add: dict_get_def map_of_SomeD)
    then have "row (pid, d) \<in> set (ranked e)"
      by (auto simp: set_ranked simp del: row.simps)
    moreover have "set (ranked e) = set (take k (ranked e)) \<union> set (drop k (ranked e))"
      by (metis append_take_drop_id set_append)
    moreover have "row (pid, d) \<notin> set (take k (ranked e))"
    proof
      assume "row (pid, d) \<in> set (take k (ranked e))"
      then have "player_id (row (pid, d)) \<in> set (map player_id (take k (ranked e)))"
        by (simp del: row.simps)
      then have "pid \<in> set (map player_id ?top)" by (simp add: top player_id_number)
      with that(2) show False by simp
    qed
    ultimately have dr: "row (pid, d) \<in> set (drop k (ranked e))" by blast
    from that(3) obtain x i where x: "x \<in> set (take k (ranked e))" "a = x\<lparr>rank := i\<rparr>"
      unfolding top by (blast dest: number_mem)
    have "sorted_wrt (\<lambda>a b. e_score b \<le> e_score a) (take k (ranked e) @ drop k (ranked e))"
      using ranked_sorted by simp
    then have "e_score (row (pid, d)) \<le> e_score x"
      using x(1) dr unfolding sorted_wrt_append by blast
    then show ?thesis using x(2) by simp
  qed
  from c1 c2 c3 c4 c5 c6 c7 show ?thesis by blast
qed

text \<open>The best one of two tied players: the first one the dict holds.\<close>

theorem get_top_contract_witness:
  "wf tied_board
   \<and> fst (get_top 1 tied_board) =
       [\<lparr>rank = 1, player_id = KStr ''a'', e_name = PStr ''Ann'', e_score = 5\<rparr>]
   \<and> length (fst (get_top 1 tied_board)) = min (nat 1) (length (scores tied_board))
   \<and> map rank (fst (get_top 1 tied_board)) = [1]
   \<and> dict_get (scores tied_board) (KStr ''b'') = Some \<lparr>score = 5, name = PStr ''Bob'', ts = Fin 2\<rparr>"
proof -
  have t: "fst (get_top 1 tied_board) =
       [\<lparr>rank = 1, player_id = KStr ''a'', e_name = PStr ''Ann'', e_score = 5\<rparr>]"
    by (simp add: tied_board_eq get_top_def ranked_def slice_to_def number_def)
  have b: "dict_get (scores tied_board) (KStr ''b'') =
      Some \<lparr>score = 5, name = PStr ''Bob'', ts = Fin 2\<rparr>"
    by (simp add: tied_board_eq dict_get_def)
  from get_top_contract [OF wf_tied_board, of 1] wf_tied_board t b show ?thesis
    by simp
qed

text \<open>
  The claim as stated fails twice: two players of equal score are both returned, so the
  scores do not descend strictly; and \<open>get_top (-1)\<close> is the slice \<open>ranked[:-1]\<close>, one
  row of the two, which is more than \<open>min (-1) 2\<close>.
\<close>

theorem get_top_strict_counterexample:
  "\<not> sorted_wrt (\<lambda>a b. e_score b < e_score a) (fst (get_top 2 tied_board))
   \<and> \<not> int (length (fst (get_top (- 1) tied_board))) \<le> min (- 1) (int (length (scores tied_board)))"
  by (simp add: tied_board_eq get_top_def ranked_def slice_to_def number_def)

section \<open>C4: unknown commands\<close>

text \<open>
  C4, as the code has it. Let a frame decode to an object whose \<open>cmd\<close> is absent or a
  string, and let the upper-cased \<open>cmd\<close> be none of \<open>UPDATE\<close>, \<open>GET_TOP\<close>,
  \<open>GET_PLAYER\<close>, \<open>STATS\<close>, \<open>PING\<close>. Then the handler answers with the envelope of
  status \<open>ok\<close> whose data is \<open>{"error": "unknown command: <CMD>"}\<close>, and the engine
  is unchanged. In the read loop, the chunk that completes this frame is answered by
  exactly this reply; the session keeps its state, and the shared engine is unchanged.
\<close>

theorem unknown_command_reply:
  assumes "loads lib raw = Inr (PDict msg)"
    and "get_default msg ''cmd'' (PStr '''') = PStr c"
    and "upper lib c \<notin> commands"
    and "buf s @ chunk = frame @ [newline]" and "chunk \<noteq> []" and "newline \<notin> set frame"
    and "strip lib frame = raw" and "raw \<noteq> []"
  shows "handle lib clk e raw =
           (Ok (latency_ms clk) (ErrorData (''unknown command: '' @ upper lib c)), e)
       \<and> resp_status (fst (handle lib clk e raw)) = ''ok''
       \<and> on_recv lib clocks (Chunk chunk) s =
           s\<lparr>buf := [],
             sent := sent s @ [Ok (latency_ms (clocks (length (sent s))))
                                (ErrorData (''unknown command: '' @ upper lib c))]\<rparr>"
proof -
  have h: "handle lib k e' raw =
           (Ok (latency_ms k) (ErrorData (''unknown command: '' @ upper lib c)), e')" for k e'
    by (rule handle_unknown [OF assms(1,2,3)])
  have "strip lib frame \<noteq> []" using assms(7,8) by simp
  from on_recv_frame [OF assms(4,5,6) this, of clocks] show ?thesis
    by (simp add: h assms(7))
qed

text \<open>The frame \<open>{"cmd": "dance"}\<close>, arriving whole in a fresh session.\<close>

theorem unknown_command_reply_witness:
  "loads demo_lib frame_dance = Inr (PDict [(''cmd'', PStr ''dance'')])
   \<and> upper demo_lib ''dance'' = ''DANCE''
   \<and> ''DANCE'' \<notin> commands
   \<and> handle demo_lib demo_clock one_player frame_dance =
       (Ok 125 (ErrorData ''unknown command: DANCE''), one_player)
   \<and> on_recv demo_lib (\<lambda>k. demo_clock) (Chunk (frame_dance @ [newline]))
         (fresh_session one_player) =
       \<lparr>shared = one_player, buf = [],
        sent = [Ok 125 (ErrorData ''unknown command: DANCE'')], state = Reading\<rparr>"
proof -
  have u: "upper demo_lib ''dance'' = ''DANCE''" by (simp add: upper_demo ascii_upper_def)
  have a2: "get_default [(''cmd'', PStr ''dance'')] ''cmd'' (PStr '''') = PStr ''dance''"
    by (simp add: get_default_def dict_get_def)
  have a3: "upper demo_lib ''dance'' \<notin> commands" by (simp add: u commands_def)
  have a4: "buf (fresh_session one_player) @ (frame_dance @ [newline]) = frame_dance @ [newline]"
    by (simp add: fresh_session_def)
  have a5: "frame_dance @ [newline] \<noteq> []" by simp
  have a6: "newline \<notin> set frame_dance" by (simp add: frame_dance_def newline_def)
  have a7: "strip demo_lib frame_dance = frame_dance"
    by (simp add: strip_demo ascii_strip_def ascii_space_def frame_dance_def)
  have a8: "frame_dance \<noteq> []" by (simp add: frame_dance_def)
  from unknown_command_reply [OF loads_demo(1) a2 a3 a4 a5 a6 a7 a8,
      of demo_clock one_player "\<lambda>k. demo_clock"] loads_demo(1) u a3
  show ?thesis by (simp add: latency_demo fresh_session_def)
qed

text \<open>The claim as stated fails: the reply to \<open>{"cmd": "dance"}\<close> has the status \<open>ok\<close>.\<close>

theorem unknown_command_counterexample:
  "loads demo_lib frame_dance = Inr (PDict [(''cmd'', PStr ''dance'')])
   \<and> upper demo_lib ''dance'' \<notin> commands
   \<and> resp_status (fst (handle demo_lib demo_clock one_player frame_dance)) \<noteq> ''error''"
proof -
  have u: "upper demo_lib ''dance'' = ''DANCE''" by (simp add: upper_demo ascii_upper_def)
  have a2: "get_default [(''cmd'', PStr ''dance'')] ''cmd'' (PStr '''') = PStr ''dance''"
    by (simp add: get_default_def dict_get_def)
  have a3: "upper demo_lib ''dance'' \<notin> commands" by (simp add: u commands_def)
  show ?thesis using a3 by (simp add: handle_unknown [OF loads_demo(1) a2 a3] loads_demo(1))
qed

section \<open>C5: frames that do not decode, and invalid requests\<close>

text \<open>
  C5, as the code has it. The handler answers with the envelope of status \<open>error\<close>, and
  leaves the engine as it is, when the frame does not decode; when it decodes to something
  that is not an object; when \<open>cmd\<close> is not a string; when an \<open>UPDATE\<close> has no
  \<open>player_id\<close>, no \<open>score\<close>, a score that \<open>int\<close> refuses, a \<open>ts\<close> that \<open>float\<close> refuses, or
  an unhashable \<open>player_id\<close> (a list or an object); when a \<open>GET_PLAYER\<close> has no
  \<open>player_id\<close> or an unhashable one. An \<open>UPDATE\<close> whose \<open>player_id\<close> is hashable, of
  whatever type, and whose \<open>score\<close> and \<open>ts\<close> are accepted is not refused: it is applied
  with the \<open>player_id\<close> as the key and answered with status \<open>ok\<close>. No reply of status
  \<open>error\<close> ever comes with a changed engine. Bytes received that decode to a text that is
  not empty leave the state of the session as it is, whatever frames they hold; bytes
  that do not decode close the session, and nothing is handled or sent.
\<close>

theorem invalid_request_reply:
  "(loads lib raw = Inl ex \<longrightarrow> handle lib clk e raw = (Error ex, e))
   \<and> (loads lib raw = Inr v \<and> (\<forall>msg. v \<noteq> PDict msg) \<longrightarrow>
        handle lib clk e raw = (Error AttributeError, e))
   \<and> (loads lib raw = Inr (PDict msg) \<and> (\<forall>c. get_default msg ''cmd'' (PStr '''') \<noteq> PStr c) \<longrightarrow>
        handle lib clk e raw = (Error AttributeError, e))
   \<and> (loads lib raw = Inr (PDict msg) \<and> get_default msg ''cmd'' (PStr '''') = PStr c
        \<and> upper lib c = ''UPDATE'' \<longrightarrow>
          (dict_get msg ''player_id'' = None \<longrightarrow>
             handle lib clk e raw = (Error (KeyError ''player_id''), e))
        \<and> (dict_get msg ''player_id'' = Some pid \<and> dict_get msg ''score'' = None \<longrightarrow>
             handle lib clk e raw = (Error (KeyError ''score''), e))
        \<and> (dict_get msg ''player_id'' = Some pid \<and> dict_get msg ''score'' = Some sv
             \<and> py_int lib sv = Inl ex \<longrightarrow>
             handle lib clk e raw = (Error ex, e))
        \<and> (dict_get msg ''player_id'' = Some pid \<and> dict_get msg ''score'' = Some sv
             \<and> py_int lib sv = Inr sc
             \<and> py_float lib (get_default msg ''ts'' (PFloat (Fin (now clk)))) = Inl ex \<longrightarrow>
             handle lib clk e raw = (Error ex, e))
        \<and> (dict_get msg ''player_id'' = Some pid \<and> dict_get msg ''score'' = Some sv
             \<and> py_int lib sv = Inr sc
             \<and> py_float lib (get_default msg ''ts'' (PFloat (Fin (now clk)))) = Inr timestamp
             \<and> hashable pid = None \<longrightarrow>
             handle lib clk e raw = (Error TypeError, e))
        \<and> (dict_get msg ''player_id'' = Some pid \<and> dict_get msg ''score'' = Some sv
             \<and> py_int lib sv = Inr sc
             \<and> py_float lib (get_default msg ''ts'' (PFloat (Fin (now clk)))) = Inr timestamp
             \<and> hashable pid = Some k \<longrightarrow>
             handle lib clk e raw =
               (Ok (latency_ms clk)
                  (UpdateData (fst (update k (get_default msg ''name'' pid) sc timestamp e))
                     (fst (get_top TOP_N
                            (snd (update k (get_default msg ''name'' pid) sc timestamp e))))),
                snd (update k (get_default msg ''name'' pid) sc timestamp e))))
   \<and> (loads lib raw = Inr (PDict msg) \<and> get_default msg ''cmd'' (PStr '''') = PStr c
        \<and> upper lib c = ''GET_PLAYER'' \<longrightarrow>
          (dict_get msg ''player_id'' = None \<longrightarrow>
             handle lib clk e raw = (Error (KeyError ''player_id''), e))
        \<and> (dict_get msg ''player_id'' = Some pid \<and> hashable pid = None \<longrightarrow>
             handle lib clk e raw = (Error TypeError, e)))
   \<and> (resp_status (fst (handle lib clk e raw)) = ''error'' \<longrightarrow> snd (handle lib clk e raw) = e)
   \<and> (decode lib bs = Inr chunk \<and> chunk \<noteq> [] \<longrightarrow>
        state (on_read lib clocks (Received bs) s) = state s)
   \<and> (decode lib bs = Inl ex \<longrightarrow>
        on_read lib clocks (Received bs) s = s\<lparr>state := Closed\<rparr>)"
proof (intro conjI impI; (elim conjE)?)
  show "loads lib raw = Inl ex \<Longrightarrow> handle lib clk e raw = (Error ex, e)"
    by (rule handle_decode_error)
  show "loads lib raw = Inr v \<Longrightarrow> \<forall>msg. v \<noteq> PDict msg \<Longrightarrow>
      handle lib clk e raw = (Error AttributeError, e)"
    by (rule handle_not_object)
  show "loads lib raw = Inr (PDict msg) \<Longrightarrow>
      \<forall>c. get_default msg ''cmd'' (PStr '''') \<noteq> PStr c \<Longrightarrow>
      handle lib clk e raw = (Error AttributeError, e)"
    by (rule handle_cmd_not_str)
  show "loads lib raw = Inr (PDict msg) \<Longrightarrow> get_default msg ''cmd'' (PStr '''') = PStr c \<Longrightarrow>
      upper lib c = ''UPDATE'' \<Longrightarrow> dict_get msg ''player_id'' = None \<Longrightarrow>
      handle lib clk e raw = (Error (KeyError ''player_id''), e)"
    by (rule handle_update_args(1))
  show "loads lib raw = Inr (PDict msg) \<Longrightarrow> get_default msg ''cmd'' (PStr '''') = PStr c \<Longrightarrow>
      upper lib c = ''UPDATE'' \<Longrightarrow> dict_get msg ''player_id'' = Some pid \<Longrightarrow>
      dict_get msg ''score'' = None \<Longrightarrow>
      handle lib clk e raw = (Error (KeyError ''score''), e)"
    by (rule handle_update_args(2))
  show "loads lib raw = Inr (PDict msg) \<Longrightarrow> get_default msg ''cmd'' (PStr '''') = PStr c \<Longrightarrow>
      upper lib c = ''UPDATE'' \<Longrightarrow> dict_get msg ''player_id'' = Some pid \<Longrightarrow>
      dict_get msg ''score'' = Some sv \<Longrightarrow> py_int lib sv = Inl ex \<Longrightarrow>
      handle lib clk e raw = (Error ex, e)"
    by (rule handle_update_args(3))
  show "loads lib raw = Inr (PDict msg) \<Longrightarrow> get_default msg ''cmd'' (PStr '''') = PStr c \<Longrightarrow>
      upper lib c = ''UPDATE'' \<Longrightarrow> dict_get msg ''player_id'' = Some pid \<Longrightarrow>
      dict_get msg ''score'' = Some sv \<Longrightarrow> py_int lib sv = Inr sc \<Longrightarrow>
      py_float lib (get_default msg ''ts'' (PFloat (Fin (now clk)))) = Inl ex \<Longrightarrow>
      handle lib clk e raw = (Error ex, e)"
    by (rule handle_update_args(4))
  show "loads lib raw = Inr (PDict msg) \<Longrightarrow> get_default msg ''cmd'' (PStr '''') = PStr c \<Longrightarrow>
      upper lib c = ''UPDATE'' \<Longrightarrow> dict_get msg ''player_id'' = Some pid \<Longrightarrow>
      dict_get msg ''score'' = Some sv \<Longrightarrow> py_int lib sv = Inr sc \<Longrightarrow>
      py_float lib (get_default msg ''ts'' (PFloat (Fin (now clk)))) = Inr timestamp \<Longrightarrow>
      hashable pid = None \<Longrightarrow>
      handle lib clk e raw = (Error TypeError, e)"
    by (rule handle_update_args(5))
  show "loads lib raw = Inr (PDict msg) \<Longrightarrow> get_default msg ''cmd'' (PStr '''') = PStr c \<Longrightarrow>
      upper lib c = ''UPDATE'' \<Longrightarrow> dict_get msg ''player_id'' = Some pid \<Longrightarrow>
      dict_get msg ''score'' = Some sv \<Longrightarrow> py_int lib sv = Inr sc \<Longrightarrow>
      py_float lib (get_default msg ''ts'' (PFloat (Fin (now clk)))) = Inr timestamp \<Longrightarrow>
      hashable pid = Some k \<Longrightarrow>
      handle lib clk e raw =
        (Ok (latency_ms clk)
           (UpdateData (fst (update k (get_default msg ''name'' pid) sc timestamp e))
              (fst (get_top TOP_N
                     (snd (update k (get_default msg ''name'' pid) sc timestamp e))))),
         snd (update k (get_default msg ''name'' pid) sc timestamp e))"
    by (rule handle_update_args(6))
  show "loads lib raw = Inr (PDict msg) \<Longrightarrow> get_default msg ''cmd'' (PStr '''') = PStr c \<Longrightarrow>
      upper lib c = ''GET_PLAYER'' \<Longrightarrow> dict_get msg ''player_id'' = None \<Longrightarrow>
      handle lib clk e raw = (Error (KeyError ''player_id''), e)"
    by (rule handle_get_player(1))
  show "loads lib raw = Inr (PDict msg) \<Longrightarrow> get_default msg ''cmd'' (PStr '''') = PStr c \<Longrightarrow>
      upper lib c = ''GET_PLAYER'' \<Longrightarrow> dict_get msg ''player_id'' = Some pid \<Longrightarrow>
      hashable pid = None \<Longrightarrow> handle lib clk e raw = (Error TypeError, e)"
    by (rule handle_get_player(2))
  show "resp_status (fst (handle lib clk e raw)) = ''error'' \<Longrightarrow> snd (handle lib clk e raw) = e"
    by (rule handle_error_frame)
  show "decode lib bs = Inr chunk \<Longrightarrow> chunk \<noteq> [] \<Longrightarrow>
      state (on_read lib clocks (Received bs) s) = state s"
    by (rule on_read_state)
  show "decode lib bs = Inl ex \<Longrightarrow> on_read lib clocks (Received bs) s = s\<lparr>state := Closed\<rparr>"
    by (rule on_read_undecodable)
qed

text \<open>
  One frame of each kind, sent to the store with one player: text that is no JSON, a
  list, a numeric \<open>cmd\<close>, an \<open>UPDATE\<close> without \<open>player_id\<close>, one without \<open>score\<close>,
  one with the score \<open>null\<close>, one with the \<open>ts\<close> \<open>null\<close>, one whose \<open>player_id\<close> is a list
  and one whose \<open>player_id\<close> is \<open>true\<close> (the key \<open>1\<close>), a \<open>GET_PLAYER\<close> without \<open>player_id\<close>
  and one whose \<open>player_id\<close> is a list; then the bytes of a frame, and bytes that are no
  UTF-8, read by a fresh session.
\<close>

theorem invalid_request_reply_witness:
  "handle demo_lib demo_clock one_player ''hello'' = (Error JSONDecodeError, one_player)
   \<and> handle demo_lib demo_clock one_player frame_list = (Error AttributeError, one_player)
   \<and> handle demo_lib demo_clock one_player frame_cmd_number = (Error AttributeError, one_player)
   \<and> handle demo_lib demo_clock one_player frame_no_id =
       (Error (KeyError ''player_id''), one_player)
   \<and> handle demo_lib demo_clock one_player frame_no_score =
       (Error (KeyError ''score''), one_player)
   \<and> handle demo_lib demo_clock one_player frame_null_score = (Error TypeError, one_player)
   \<and> handle demo_lib demo_clock one_player frame_null_ts = (Error TypeError, one_player)
   \<and> handle demo_lib demo_clock one_player frame_update_list_id = (Error TypeError, one_player)
   \<and> handle demo_lib demo_clock one_player frame_bool_id =
       (Ok 125
          (UpdateData \<lparr>status = ''accepted'', current_score = 4\<rparr>
             [\<lparr>rank = 1, player_id = KStr ''p1'', e_name = PStr ''Ann'', e_score = 10\<rparr>,
              \<lparr>rank = 2, player_id = KNum (Fin 1), e_name = PBool True, e_score = 4\<rparr>]),
        \<lparr>scores = [(KStr ''p1'', \<lparr>score = 10, name = PStr ''Ann'', ts = Fin 1\<rparr>),
                   (KNum (Fin 1), \<lparr>score = 4, name = PBool True, ts = Fin (5 / 2)\<rparr>)],
         update_count = 2, start_time = 0\<rparr>)
   \<and> handle demo_lib demo_clock one_player frame_lookup_no_id =
       (Error (KeyError ''player_id''), one_player)
   \<and> handle demo_lib demo_clock one_player frame_list_id = (Error TypeError, one_player)
   \<and> resp_status (fst (handle demo_lib demo_clock one_player frame_no_id)) = ''error''
   \<and> snd (handle demo_lib demo_clock one_player frame_no_id) = one_player
   \<and> decode demo_lib (frame_no_id @ [newline]) = Inr (frame_no_id @ [newline])
   \<and> state (on_read demo_lib (\<lambda>k. demo_clock) (Received (frame_no_id @ [newline]))
        (fresh_session one_player)) = Reading
   \<and> decode demo_lib bad_bytes = Inl UnicodeDecodeError
   \<and> on_read demo_lib (\<lambda>k. demo_clock) (Received bad_bytes) (fresh_session one_player) =
       \<lparr>shared = one_player, buf = [], sent = [], state = Closed\<rparr>"
proof -
  note inst = invalid_request_reply [where lib = demo_lib and clk = demo_clock and e = one_player]
  have up: "upper demo_lib ''UPDATE'' = ''UPDATE''" "upper demo_lib ''update'' = ''UPDATE''"
    "upper demo_lib ''GET_PLAYER'' = ''GET_PLAYER''"
    by (simp_all add: upper_demo ascii_upper_def)
  have w1: "handle demo_lib demo_clock one_player ''hello'' = (Error JSONDecodeError, one_player)"
    using inst [where raw = "''hello''" and ex = JSONDecodeError] loads_demo(12) by blast
  have w2: "handle demo_lib demo_clock one_player frame_list = (Error AttributeError, one_player)"
    using inst [where raw = frame_list and v = "PList [PInt 1, PInt 2]"] loads_demo(2) by simp
  have w3: "handle demo_lib demo_clock one_player frame_cmd_number =
      (Error AttributeError, one_player)"
    using inst [where raw = frame_cmd_number and msg = "[(''cmd'', PInt 5)]"] loads_demo(3)
    by (simp add: get_default_def dict_get_def)
  have w4: "handle demo_lib demo_clock one_player frame_no_id =
      (Error (KeyError ''player_id''), one_player)"
    using inst [where raw = frame_no_id and c = "''UPDATE''"
        and msg = "[(''cmd'', PStr ''UPDATE''), (''score'', PInt 5)]"] loads_demo(5) up
    by (simp add: get_default_def dict_get_def)
  have w5: "handle demo_lib demo_clock one_player frame_no_score =
      (Error (KeyError ''score''), one_player)"
    using inst [where raw = frame_no_score and c = "''update''" and pid = "PStr ''p1''"
        and msg = "[(''cmd'', PStr ''update''), (''player_id'', PStr ''p1'')]"] loads_demo(6) up
    by (simp add: get_default_def dict_get_def)
  have w6: "handle demo_lib demo_clock one_player frame_null_score = (Error TypeError, one_player)"
    using inst [where raw = frame_null_score and c = "''UPDATE''" and pid = "PStr ''p1''"
        and sv = PNone and ex = TypeError
        and msg = "[(''cmd'', PStr ''UPDATE''), (''player_id'', PStr ''p1''), (''score'', PNone)]"]
      loads_demo(7) up
    by (simp add: get_default_def dict_get_def)
  have w6a: "handle demo_lib demo_clock one_player frame_null_ts = (Error TypeError, one_player)"
    using inst [where raw = frame_null_ts and c = "''UPDATE''" and pid = "PStr ''p1''"
        and sv = "PInt 3" and sc = 3 and ex = TypeError
        and msg = "[(''cmd'', PStr ''UPDATE''), (''player_id'', PStr ''p1''), (''score'', PInt 3),
                    (''ts'', PNone)]"]
      loads_demo(14) up
    by (simp add: get_default_def dict_get_def)
  have w6b: "handle demo_lib demo_clock one_player frame_update_list_id =
      (Error TypeError, one_player)"
    using inst [where raw = frame_update_list_id and c = "''UPDATE''" and pid = "PList [PInt 1]"
        and sv = "PInt 3" and sc = 3 and timestamp = "Fin (19 / 2)"
        and msg = "[(''cmd'', PStr ''UPDATE''), (''player_id'', PList [PInt 1]),
                    (''score'', PInt 3), (''ts'', PFloat (Fin (19 / 2)))]"]
      loads_demo(13) up
    by (simp add: get_default_def dict_get_def)
  have w6c: "handle demo_lib demo_clock one_player frame_bool_id =
       (Ok 125
          (UpdateData \<lparr>status = ''accepted'', current_score = 4\<rparr>
             [\<lparr>rank = 1, player_id = KStr ''p1'', e_name = PStr ''Ann'', e_score = 10\<rparr>,
              \<lparr>rank = 2, player_id = KNum (Fin 1), e_name = PBool True, e_score = 4\<rparr>]),
        \<lparr>scores = [(KStr ''p1'', \<lparr>score = 10, name = PStr ''Ann'', ts = Fin 1\<rparr>),
                   (KNum (Fin 1), \<lparr>score = 4, name = PBool True, ts = Fin (5 / 2)\<rparr>)],
         update_count = 2, start_time = 0\<rparr>)"
    using inst [where raw = frame_bool_id and c = "''UPDATE''" and pid = "PBool True"
        and sv = "PInt 4" and sc = 4 and timestamp = "Fin (5 / 2)" and k = "KNum (Fin 1)"
        and msg = "[(''cmd'', PStr ''UPDATE''), (''player_id'', PBool True),
                    (''score'', PInt 4), (''ts'', PFloat (Fin (5 / 2)))]"]
      loads_demo(15) up
    by (simp add: get_default_def dict_get_def latency_demo one_player_eq update_def get_top_def
        TOP_N_def ranked_def slice_to_def number_def)
  have w7: "handle demo_lib demo_clock one_player frame_lookup_no_id =
      (Error (KeyError ''player_id''), one_player)"
    using inst [where raw = frame_lookup_no_id and c = "''GET_PLAYER''"
        and msg = "[(''cmd'', PStr ''GET_PLAYER'')]"] loads_demo(9) up
    by (simp add: get_default_def dict_get_def)
  have w8: "handle demo_lib demo_clock one_player frame_list_id = (Error TypeError, one_player)"
    using inst [where raw = frame_list_id and c = "''GET_PLAYER''" and pid = "PList [PInt 1]"
        and msg = "[(''cmd'', PStr ''GET_PLAYER''), (''player_id'', PList [PInt 1])]"]
      loads_demo(8) up
    by (simp add: get_default_def dict_get_def)
  have w9: "snd (handle demo_lib demo_clock one_player frame_no_id) = one_player"
    using inst [where raw = frame_no_id] by (simp add: w4)
  have d1: "decode demo_lib (frame_no_id @ [newline]) = Inr (frame_no_id @ [newline])"
    by (simp add: demo_lib_def frame_no_id_def newline_def)
  have d2: "decode demo_lib bad_bytes = Inl UnicodeDecodeError"
    by (simp add: demo_lib_def bad_bytes_def)
  have w10: "state (on_read demo_lib (\<lambda>k. demo_clock) (Received (frame_no_id @ [newline]))
        (fresh_session one_player)) = Reading"
    using inst [where bs = "frame_no_id @ [newline]" and chunk = "frame_no_id @ [newline]"
        and clocks = "\<lambda>k. demo_clock" and s = "fresh_session one_player"] d1
    by (simp add: fresh_session_def)
  have w11: "on_read demo_lib (\<lambda>k. demo_clock) (Received bad_bytes) (fresh_session one_player) =
       \<lparr>shared = one_player, buf = [], sent = [], state = Closed\<rparr>"
    using inst [where bs = bad_bytes and ex = UnicodeDecodeError
        and clocks = "\<lambda>k. demo_clock" and s = "fresh_session one_player"] d2
    by (simp add: fresh_session_def)
  from w1 w2 w3 w4 w5 w6 w6a w6b w6c w7 w8 w9 d1 w10 d2 w11 show ?thesis by simp
qed

text \<open>
  The claim as stated fails twice. On a required field of the wrong type: the \<open>UPDATE\<close>
  whose \<open>player_id\<close> is the number 7 is answered with status \<open>ok\<close>, and the number
  becomes a player of the store. On a frame that does not decode: bytes that are no
  UTF-8 get no reply, and the session is closed.
\<close>

theorem invalid_request_counterexample:
  "loads demo_lib frame_numeric_id =
     Inr (PDict [(''cmd'', PStr ''UPDATE''), (''player_id'', PInt 7), (''score'', PInt 1),
                 (''ts'', PFloat (Fin 2))])
   \<and> resp_status (fst (handle demo_lib demo_clock one_player frame_numeric_id)) = ''ok''
   \<and> snd (handle demo_lib demo_clock one_player frame_numeric_id) \<noteq> one_player
   \<and> dict_get (scores (snd (handle demo_lib demo_clock one_player frame_numeric_id)))
        (KNum (Fin 7)) = Some \<lparr>score = 1, name = PInt 7, ts = Fin 2\<rparr>
   \<and> update_count (snd (handle demo_lib demo_clock one_player frame_numeric_id)) = 2
   \<and> state (on_read demo_lib (\<lambda>k. demo_clock) (Received bad_bytes)
        (fresh_session one_player)) = Closed
   \<and> sent (on_read demo_lib (\<lambda>k. demo_clock) (Received bad_bytes)
        (fresh_session one_player)) = []"
proof -
  have c: "get_default [(''cmd'', PStr ''UPDATE''), (''player_id'', PInt 7), (''score'', PInt 1),
      (''ts'', PFloat (Fin 2))] ''cmd'' (PStr '''') = PStr ''UPDATE''"
    by (simp add: get_default_def dict_get_def)
  have u: "upper demo_lib ''UPDATE'' = ''UPDATE''" by (simp add: upper_demo ascii_upper_def)
  have h: "handle demo_lib demo_clock one_player frame_numeric_id =
      (Ok 125
         (UpdateData \<lparr>status = ''accepted'', current_score = 1\<rparr>
            [\<lparr>rank = 1, player_id = KStr ''p1'', e_name = PStr ''Ann'', e_score = 10\<rparr>,
             \<lparr>rank = 2, player_id = KNum (Fin 7), e_name = PInt 7, e_score = 1\<rparr>]),
       \<lparr>scores = [(KStr ''p1'', \<lparr>score = 10, name = PStr ''Ann'', ts = Fin 1\<rparr>),
                  (KNum (Fin 7), \<lparr>score = 1, name = PInt 7, ts = Fin 2\<rparr>)],
        update_count = 2, start_time = 0\<rparr>)"
    by (simp add: handle_update_args(6) [OF loads_demo(4) c u, of "PInt 7" "PInt 1" 1 _ "Fin 2" "KNum (Fin 7)"]
        get_default_def dict_get_def latency_demo one_player_eq update_def get_top_def TOP_N_def
        ranked_def slice_to_def number_def)
  have d: "decode demo_lib bad_bytes = Inl UnicodeDecodeError"
    by (simp add: demo_lib_def bad_bytes_def)
  have r: "on_read demo_lib (\<lambda>k. demo_clock) (Received bad_bytes) (fresh_session one_player) =
      \<lparr>shared = one_player, buf = [], sent = [], state = Closed\<rparr>"
    by (simp add: on_read_def d on_recv_def fresh_session_def)
  show ?thesis unfolding h r by (simp add: loads_demo(4) one_player_eq dict_get_def)
qed

section \<open>C6: the counter of accepted updates\<close>

text \<open>
  C6. From a fresh store, after any sequence of updates \<open>update_count\<close>, and with it
  \<open>total_updates\<close> of \<open>stats\<close>, is the number of accepted updates of the sequence. Each
  accepted update adds exactly one to \<open>update_count\<close>; an update that is not accepted is
  rejected and leaves it as it is.
\<close>

theorem counter_accuracy:
  "update_count (snd (apply_updates us (init t))) =
     int (length (filter accepted (fst (apply_updates us (init t)))))
   \<and> total_updates (fst (stats tm (snd (apply_updates us (init t))))) =
     int (length (filter accepted (fst (apply_updates us (init t)))))
   \<and> (accepted (fst (update pid nm sc timestamp e)) \<longrightarrow>
        update_count (snd (update pid nm sc timestamp e)) = update_count e + 1)
   \<and> (\<not> accepted (fst (update pid nm sc timestamp e)) \<longrightarrow>
        status (fst (update pid nm sc timestamp e)) = ''rejected''
        \<and> update_count (snd (update pid nm sc timestamp e)) = update_count e)"
proof -
  have "update_count (snd (apply_updates us (init t))) =
     int (length (filter accepted (fst (apply_updates us (init t)))))"
    using apply_updates_count [of us "init t"] by (simp add: init_def)
  moreover have "total_updates (fst (stats tm e')) = update_count e'" for e'
    by (simp add: stats_def Let_def)
  moreover have "\<not> accepted (fst (update pid nm sc timestamp e)) \<longrightarrow>
        status (fst (update pid nm sc timestamp e)) = ''rejected''"
    using update_status [of pid nm sc timestamp e] by (auto simp: accepted_def)
  ultimately show ?thesis
    using update_count_step [of pid nm sc timestamp e] by simp
qed

text \<open>Five updates of which three are accepted; and one accepted, one rejected step.\<close>

theorem counter_accuracy_witness:
  "map status (fst (apply_updates mixed (init 0))) =
     [''accepted'', ''rejected'', ''accepted'', ''rejected'', ''accepted'']
   \<and> update_count (snd (apply_updates mixed (init 0))) = 3
   \<and> total_updates (fst (stats 100 (snd (apply_updates mixed (init 0))))) = 3
   \<and> accepted (fst (update (KStr ''p1'') (PStr ''Ann'') 11 (Fin 2) one_player))
   \<and> update_count (snd (update (KStr ''p1'') (PStr ''Ann'') 11 (Fin 2) one_player)) = 2
   \<and> status (fst (update (KStr ''p1'') (PStr ''Ann'') 11 (Fin (1 / 2)) one_player)) = ''rejected''
   \<and> update_count (snd (update (KStr ''p1'') (PStr ''Ann'') 11 (Fin (1 / 2)) one_player)) = 1"
proof -
  have r: "fst (apply_updates mixed (init 0)) =
     [\<lparr>status = ''accepted'', current_score = 5\<rparr>, \<lparr>status = ''rejected'', current_score = 5\<rparr>,
      \<lparr>status = ''accepted'', current_score = 1\<rparr>, \<lparr>status = ''rejected'', current_score = 1\<rparr>,
      \<lparr>status = ''accepted'', current_score = 6\<rparr>]"
    by (simp add: mixed_def update_def init_def dict_get_def)
  have a: "accepted (fst (update (KStr ''p1'') (PStr ''Ann'') 11 (Fin 2) one_player))"
    by (simp add: one_player_eq update_def dict_get_def accepted_def)
  have b: "\<not> accepted (fst (update (KStr ''p1'') (PStr ''Ann'') 11 (Fin (1 / 2)) one_player))"
    by (simp add: one_player_eq update_def dict_get_def accepted_def)
  from counter_accuracy [of mixed 0 100 "KStr ''p1''" "PStr ''Ann''" 11 "Fin 2" one_player]
    counter_accuracy [of mixed 0 100 "KStr ''p1''" "PStr ''Ann''" 11 "Fin (1 / 2)" one_player] a b
  show ?thesis
    by (simp add: r accepted_def one_player_eq)
qed

section \<open>C7: looking up a player\<close>

text \<open>
  C7. A \<open>GET_PLAYER\<close> request with a \<open>player_id\<close> that can be a dict key (a string, as
  the request schema has it, or any other hashable value) is always answered with status
  \<open>ok\<close>, and the engine is unchanged. If the store does not have the player, the data
  is \<open>{"error": "player not found"}\<close>; from a fresh store that is exactly the case when
  no update for the player was ever accepted. If the store has the player, the data is
  the stored record.
\<close>

theorem get_player_reply:
  assumes "loads lib raw = Inr (PDict msg)"
    and "get_default msg ''cmd'' (PStr '''') = PStr c"
    and "upper lib c = ''GET_PLAYER''"
    and "dict_get msg ''player_id'' = Some pid"
    and "hashable pid = Some k"
  shows "resp_status (fst (handle lib clk e raw)) = ''ok''
     \<and> snd (handle lib clk e raw) = e
     \<and> (dict_get (scores e) k = None \<longrightarrow>
          fst (handle lib clk e raw) = Ok (latency_ms clk) (ErrorData ''player not found''))
     \<and> (\<forall>d. dict_get (scores e) k = Some d \<longrightarrow>
          fst (handle lib clk e raw) = Ok (latency_ms clk) (PlayerData d))
     \<and> (\<not> accepted_for k us (fst (apply_updates us (init t))) \<longrightarrow>
          fst (handle lib clk (snd (apply_updates us (init t))) raw) =
            Ok (latency_ms clk) (ErrorData ''player not found''))"
proof -
  note h = handle_get_player(3) [OF assms]
  have "dict_get (scores (init t)) k = None" by (simp add: init_def dict_get_def)
  from absent_iff_never_accepted [OF this, of us]
  have "\<not> accepted_for k us (fst (apply_updates us (init t))) \<longrightarrow>
      dict_get (scores (snd (apply_updates us (init t)))) k = None"
    by simp
  then show ?thesis by (auto simp: h)
qed

text \<open>
  The store with the one player \<open>p1\<close>, which a single accepted update made, asked for
  \<open>ghost\<close> and for \<open>p1\<close>.
\<close>

theorem get_player_reply_witness:
  "loads demo_lib frame_ghost =
     Inr (PDict [(''cmd'', PStr ''get_player''), (''player_id'', PStr ''ghost'')])
   \<and> upper demo_lib ''get_player'' = ''GET_PLAYER''
   \<and> hashable (PStr ''ghost'') = Some (KStr ''ghost'')
   \<and> \<not> accepted_for (KStr ''ghost'') [(KStr ''p1'', PStr ''Ann'', 10, Fin 1)]
         (fst (apply_updates [(KStr ''p1'', PStr ''Ann'', 10, Fin 1)] (init 0)))
   \<and> handle demo_lib demo_clock one_player frame_ghost =
       (Ok 125 (ErrorData ''player not found''), one_player)
   \<and> dict_get (scores one_player) (KStr ''p1'') =
       Some \<lparr>score = 10, name = PStr ''Ann'', ts = Fin 1\<rparr>
   \<and> handle demo_lib demo_clock one_player frame_p1 =
       (Ok 125 (PlayerData \<lparr>score = 10, name = PStr ''Ann'', ts = Fin 1\<rparr>), one_player)"
proof -
  have u: "upper demo_lib ''get_player'' = ''GET_PLAYER''"
    "upper demo_lib ''GET_PLAYER'' = ''GET_PLAYER''"
    by (simp_all add: upper_demo ascii_upper_def)
  have g: "get_default [(''cmd'', PStr ''get_player''), (''player_id'', PStr ''ghost'')]
      ''cmd'' (PStr '''') = PStr ''get_player''"
    "dict_get [(''cmd'', PStr ''get_player''), (''player_id'', PStr ''ghost'')] ''player_id'' =
      Some (PStr ''ghost'')"
    "get_default [(''cmd'', PStr ''GET_PLAYER''), (''player_id'', PStr ''p1'')]
      ''cmd'' (PStr '''') = PStr ''GET_PLAYER''"
    "dict_get [(''cmd'', PStr ''GET_PLAYER''), (''player_id'', PStr ''p1'')] ''player_id'' =
      Some (PStr ''p1'')"
    by (simp_all add: get_default_def dict_get_def)
  have k: "hashable (PStr ''ghost'') = Some (KStr ''ghost'')"
    "hashable (PStr ''p1'') = Some (KStr ''p1'')"
    by simp_all
  have n: "\<not> accepted_for (KStr ''ghost'') [(KStr ''p1'', PStr ''Ann'', 10, Fin 1)]
         (fst (apply_updates [(KStr ''p1'', PStr ''Ann'', 10, Fin 1)] (init 0)))"
    by (simp add: accepted_for_def update_def init_def dict_get_def)
  have p: "dict_get (scores one_player) (KStr ''p1'') =
       Some \<lparr>score = 10, name = PStr ''Ann'', ts = Fin 1\<rparr>"
    by (simp add: one_player_eq dict_get_def)
  have a: "dict_get (scores one_player) (KStr ''ghost'') = None"
    by (simp add: one_player_eq dict_get_def)
  from get_player_reply [OF loads_demo(10) g(1) u(1) g(2) k(1), of demo_clock one_player]
    a
  have r1: "handle demo_lib demo_clock one_player frame_ghost =
       (Ok 125 (ErrorData ''player not found''), one_player)"
    by (simp add: latency_demo prod_eq_iff)
  from get_player_reply [OF loads_demo(11) g(3) u(2) g(4) k(2), of demo_clock one_player]
    p
  have r2: "handle demo_lib demo_clock one_player frame_p1 =
       (Ok 125 (PlayerData \<lparr>score = 10, name = PStr ''Ann'', ts = Fin 1\<rparr>), one_player)"
    by (simp add: latency_demo prod_eq_iff)
  from loads_demo(10) u(1) k(1) n r1 p r2 show ?thesis by simp
qed

section \<open>C8: the statistics\<close>

text \<open>
  C8, as the code has it. At the clock reading \<open>tm\<close>, with \<open>elapsed\<close> the double
  \<open>tm - start_time\<close>, \<open>stats\<close> reports \<open>total_players\<close> as the number of players of the
  store, \<open>total_updates\<close> as \<open>update_count\<close>, \<open>uptime_seconds\<close> as \<open>round(elapsed, 2)\<close>, and
  \<open>updates_per_sec\<close> as \<open>round(q, 2)\<close> of the double quotient \<open>q\<close> of \<open>update_count\<close> by
  \<open>max(elapsed, 1)\<close>: the divisor is the elapsed time before its rounding, and it is at
  least 1, so that during the first second the figure is the counter itself, as a
  double, rounded to two decimals. The elapsed time and the counter are taken in the
  range where no operation on doubles overflows.
\<close>

theorem stats_contract:
  assumes "wf e"
    and "\<bar>tm - start_time e\<bar> < 2 ^ 1023"
    and "\<bar>real_of_int (update_count e)\<bar> < 2 ^ 1023"
  shows "total_players (fst (stats tm e)) = int (card {pid. dict_get (scores e) pid \<noteq> None})
   \<and> total_updates (fst (stats tm e)) = update_count e
   \<and> uptime_seconds (fst (stats tm e)) = py_round (fsub tm (start_time e)) 2
   \<and> updates_per_sec (fst (stats tm e)) =
       py_round (fdiv (to_double (of_int (total_updates (fst (stats tm e)))))
                      (max (fsub tm (start_time e)) 1)) 2
   \<and> 1 \<le> max (fsub tm (start_time e)) 1
   \<and> (fsub tm (start_time e) \<le> 1 \<longrightarrow>
        updates_per_sec (fst (stats tm e)) =
          py_round (to_double (of_int (update_count e))) 2)"
proof -
  have "total_players (fst (stats tm e)) = int (length (scores e))"
    by (rule stats_fields)
  then have a: "total_players (fst (stats tm e)) =
      int (card {pid. dict_get (scores e) pid \<noteq> None})"
    by (simp only: dict_keys_card [OF assms(1)])
  have b: "total_updates (fst (stats tm e)) = update_count e
   \<and> uptime_seconds (fst (stats tm e)) = py_round (fsub tm (start_time e)) 2
   \<and> updates_per_sec (fst (stats tm e)) =
       py_round (fdiv (to_double (of_int (total_updates (fst (stats tm e)))))
                      (max (fsub tm (start_time e)) 1)) 2
   \<and> 1 \<le> max (fsub tm (start_time e)) 1"
    by (simp add: stats_fields)
  have "(2::real) ^ 1023 \<le> 2 ^ 1024" by (rule power_increasing) simp_all
  with assms(3) have "\<bar>real_of_int (update_count e)\<bar> < 2 ^ 1024" by (rule less_le_trans)
  then have d: "fdiv (to_double (of_int (update_count e))) 1 = to_double (of_int (update_count e))"
    by (rule fdiv_one)
  have c: "updates_per_sec (fst (stats tm e)) =
      py_round (to_double (of_int (update_count e))) 2" if "fsub tm (start_time e) \<le> 1"
  proof -
    from that have "max (fsub tm (start_time e)) 1 = 1" by simp
    then show ?thesis by (simp only: stats_fields d)
  qed
  from a b c show ?thesis by blast
qed

text \<open>
  The store with one player and one update, three seconds after its start: the figure
  is the double nearest to 0.33. Half a second after its start the figure is 1.
\<close>

theorem stats_contract_witness:
  "wf one_player
   \<and> \<bar>3 - start_time one_player\<bar> < 2 ^ 1023
   \<and> \<bar>1 / 2 - start_time one_player\<bar> < 2 ^ 1023
   \<and> \<bar>real_of_int (update_count one_player)\<bar> < 2 ^ 1023
   \<and> total_players (fst (stats 3 one_player)) = 1
   \<and> card {pid. dict_get (scores one_player) pid \<noteq> None} = 1
   \<and> total_updates (fst (stats 3 one_player)) = 1
   \<and> uptime_seconds (fst (stats 3 one_player)) = 3
   \<and> updates_per_sec (fst (stats 3 one_player)) = 5944751508129055 / 18014398509481984
   \<and> 1 \<le> max (fsub 3 (start_time one_player)) 1
   \<and> fsub (1 / 2) (start_time one_player) \<le> 1
   \<and> updates_per_sec (fst (stats (1 / 2) one_player)) = 1"
proof -
  have h1: "\<bar>3 - start_time one_player\<bar> < 2 ^ 1023"
    by (simp add: one_player_fields)
  have h1': "\<bar>1 / 2 - start_time one_player\<bar> < 2 ^ 1023"
    by (simp add: one_player_fields)
  have h2: "\<bar>real_of_int (update_count one_player)\<bar> < 2 ^ 1023"
    by (simp add: one_player_fields)
  note c = stats_contract [OF wf_one_player h1 h2]
  note c' = stats_contract [OF wf_one_player h1' h2]
  have tp: "total_players (fst (stats 3 one_player)) = 1"
    by (simp add: stats_fields one_player_fields)
  from c have "total_players (fst (stats 3 one_player)) =
      int (card {pid. dict_get (scores one_player) pid \<noteq> None})"
    by (rule conjunct1)
  with tp have cd: "card {pid. dict_get (scores one_player) pid \<noteq> None} = 1"
    by simp
  have tu: "total_updates (fst (stats 3 one_player)) = 1"
    by (simp only: stats_fields one_player_fields)
  from c have dv: "1 \<le> max (fsub 3 (start_time one_player)) 1"
    by (elim conjE)
  have el: "fsub (1 / 2) (start_time one_player) \<le> 1"
    by (simp add: one_player_fields float_eval)
  have r: "py_round 1 2 = 1"
    by (simp add: float_eval)
  from c' el have "updates_per_sec (fst (stats (1 / 2) one_player)) =
      py_round (to_double (of_int (update_count one_player))) 2"
    by blast
  then have st: "updates_per_sec (fst (stats (1 / 2) one_player)) = 1"
    by (simp only: one_player_fields of_int_1 to_double_1 r)
  from wf_one_player h1 h1' h2 tp cd tu stats_3 dv el st show ?thesis
    by (intro conjI)
qed

text \<open>
  The claim as stated fails. After 3 seconds and one update the figure is the double
  nearest to 0.33: it is neither \<open>1 / max 3 1\<close> nor the double nearest to it, for the
  quotient is rounded to two decimals. After 7.99609375 seconds the reported uptime is
  8 and the figure is 0.13, while \<open>1 / max 8 1 = 0.125\<close> rounds to 0.12: the divisor is
  the elapsed time before its own rounding.
\<close>

theorem stats_rate_counterexample:
  "updates_per_sec (fst (stats 3 one_player)) \<noteq>
     of_int (total_updates (fst (stats 3 one_player)))
       / max (uptime_seconds (fst (stats 3 one_player))) 1
   \<and> updates_per_sec (fst (stats 3 one_player)) \<noteq>
     fdiv (to_double (of_int (total_updates (fst (stats 3 one_player)))))
       (max (uptime_seconds (fst (stats 3 one_player))) 1)
   \<and> uptime_seconds (fst (stats (2047 / 256) one_player)) = 8
   \<and> updates_per_sec (fst (stats (2047 / 256) one_player)) =
       1170935903116329 / 9007199254740992
   \<and> py_round (fdiv (to_double (of_int (total_updates (fst (stats (2047 / 256) one_player)))))
                 (max (uptime_seconds (fst (stats (2047 / 256) one_player))) 1)) 2 =
       1080863910568919 / 9007199254740992"
proof -
  have tu: "total_updates (fst (stats 3 one_player)) = 1"
    "total_updates (fst (stats (2047 / 256) one_player)) = 1"
    by (simp_all only: stats_fields one_player_fields)
  have a: "updates_per_sec (fst (stats 3 one_player)) \<noteq>
     of_int (total_updates (fst (stats 3 one_player)))
       / max (uptime_seconds (fst (stats 3 one_player))) 1"
    unfolding stats_3 tu of_int_1 by (rule ne1)
  have b: "updates_per_sec (fst (stats 3 one_player)) \<noteq>
     fdiv (to_double (of_int (total_updates (fst (stats 3 one_player)))))
       (max (uptime_seconds (fst (stats 3 one_player))) 1)"
    unfolding stats_3 tu of_int_1 to_double_1 quotients by (rule ne2)
  have c: "py_round (fdiv (to_double (of_int (total_updates (fst (stats (2047 / 256) one_player)))))
                 (max (uptime_seconds (fst (stats (2047 / 256) one_player))) 1)) 2 =
       1080863910568919 / 9007199254740992"
    unfolding stats_8 tu of_int_1 to_double_1 by (rule quotients)
  from a b stats_8 c show ?thesis by (intro conjI)
qed

section \<open>C9: a first update creates the record\<close>

text \<open>
  C9. For a player_id that is not in the store, \<open>update\<close> is accepted whatever the
  timestamp is, zero, negative, infinite or NaN: the record is appended with exactly the
  given score, name and timestamp, \<open>update_count\<close> grows by one, and the result is
  \<open>{"status": "accepted", "current_score": score}\<close>.
\<close>

theorem update_new_player:
  assumes "dict_get (scores e) pid = None"
  shows "update pid nm sc timestamp e =
           (\<lparr>status = ''accepted'', current_score = sc\<rparr>,
            e\<lparr>scores := scores e @ [(pid, \<lparr>score = sc, name = nm, ts = timestamp\<rparr>)],
              update_count := update_count e + 1\<rparr>)
         \<and> dict_get (scores (snd (update pid nm sc timestamp e))) pid =
             Some \<lparr>score = sc, name = nm, ts = timestamp\<rparr>"
proof -
  have "update pid nm sc timestamp e =
           (\<lparr>status = ''accepted'', current_score = sc\<rparr>,
            e\<lparr>scores := scores e @ [(pid, \<lparr>score = sc, name = nm, ts = timestamp\<rparr>)],
              update_count := update_count e + 1\<rparr>)"
    using assms by (simp add: update_def dict_set_absent)
  moreover have "dict_get (scores (snd (update pid nm sc timestamp e))) pid =
             Some \<lparr>score = sc, name = nm, ts = timestamp\<rparr>"
    using assms by (simp add: update_def dict_get_set)
  ultimately show ?thesis by simp
qed

text \<open>A new player arriving with the timestamp \<open>-5\<close>.\<close>

theorem update_new_player_witness:
  "dict_get (scores one_player) (KStr ''p2'') = None
   \<and> update (KStr ''p2'') (PStr ''Bob'') 7 (Fin (- 5)) one_player =
       (\<lparr>status = ''accepted'', current_score = 7\<rparr>,
        \<lparr>scores = [(KStr ''p1'', \<lparr>score = 10, name = PStr ''Ann'', ts = Fin 1\<rparr>),
                   (KStr ''p2'', \<lparr>score = 7, name = PStr ''Bob'', ts = Fin (- 5)\<rparr>)],
         update_count = 2, start_time = 0\<rparr>)"
proof -
  have h: "dict_get (scores one_player) (KStr ''p2'') = None"
    by (simp add: one_player_eq dict_get_def)
  from update_new_player [OF h, of "PStr ''Bob''" 7 "Fin (- 5)"] h show ?thesis
    by (simp add: one_player_eq)
qed

section \<open>C10: the read operations\<close>

text \<open>
  C10. \<open>get_top\<close>, \<open>get_player\<close> and \<open>stats\<close> return the engine they were given: the
  mapping with every stored record, \<open>update_count\<close> and \<open>start_time\<close> are the same after
  the call as before, for all arguments. On the heap, \<open>get_top\<close> leaves every object
  that existed before the call as it was, and with it \<open>_scores\<close> and the two counters:
  its writes of ranks go to the rows it has allocated itself. A heap state that
  represents an engine value still represents it after the call, and the rows returned
  are those of the value model. \<open>get_player\<close> returns a reference and writes nothing.
\<close>

theorem reads_leave_engine:
  "snd (get_top n e) = e \<and> snd (get_player pid e) = e \<and> snd (stats tm e) = e
   \<and> (\<forall>a<free s. heap (snd (get_top_h n s)) a = heap s a)
   \<and> refs (snd (get_top_h n s)) = refs s
   \<and> h_update_count (snd (get_top_h n s)) = h_update_count s
   \<and> h_start_time (snd (get_top_h n s)) = h_start_time s
   \<and> snd (get_player_h pid s) = s
   \<and> (represents s e \<longrightarrow>
        represents (snd (get_top_h n s)) e
        \<and> map (heap (snd (get_top_h n s))) (fst (get_top_h n s)) =
            map row_obj (fst (get_top n e)))"
proof -
  have "snd (get_top n e) = e \<and> snd (get_player pid e) = e \<and> snd (stats tm e) = e"
    by (simp add: get_top_def get_player_def stats_def Let_def)
  moreover have "\<forall>a<free s. heap (snd (get_top_h n s)) a = heap s a"
    by (simp add: get_top_h_frame)
  moreover have "refs (snd (get_top_h n s)) = refs s
      \<and> h_update_count (snd (get_top_h n s)) = h_update_count s
      \<and> h_start_time (snd (get_top_h n s)) = h_start_time s"
    by (simp add: get_top_h_def Let_def)
  moreover have "snd (get_player_h pid s) = s"
    by (simp add: get_player_h_def)
  moreover have "represents s e \<longrightarrow>
        represents (snd (get_top_h n s)) e
        \<and> map (heap (snd (get_top_h n s))) (fst (get_top_h n s)) =
            map row_obj (fst (get_top n e))"
    using get_top_h_represents get_top_h_rows by blast
  ultimately show ?thesis by simp
qed

text \<open>
  The two tied players on the heap: \<open>get_top 1\<close> allocates the rows 2 and 3, returns the
  reference 2, whose rank is now 1, and the records 0 and 1 are as before.
\<close>

theorem reads_leave_engine_witness:
  "represents tied_heap tied_board
   \<and> fst (get_top_h 1 tied_heap) = [2]
   \<and> heap (snd (get_top_h 1 tied_heap)) 2 =
       row_obj \<lparr>rank = 1, player_id = KStr ''a'', e_name = PStr ''Ann'', e_score = 5\<rparr>
   \<and> heap (snd (get_top_h 1 tied_heap)) 0 =
       stored_obj \<lparr>score = 5, name = PStr ''Ann'', ts = Fin 1\<rparr>
   \<and> heap (snd (get_top_h 1 tied_heap)) 1 =
       stored_obj \<lparr>score = 5, name = PStr ''Bob'', ts = Fin 2\<rparr>
   \<and> represents (snd (get_top_h 1 tied_heap)) tied_board
   \<and> snd (get_top 1 tied_board) = tied_board"
proof -
  have r: "represents tied_heap tied_board"
    by (simp add: represents_def tied_heap_def tied_board_eq)
  have t: "fst (get_top_h 1 tied_heap) = [2]"
    by (simp add: get_top_h_def tied_heap_def slice_to_def alloc_def new_row_def stored_obj_def
        Let_def upt_rec)
  have g: "fst (get_top 1 tied_board) =
       [\<lparr>rank = 1, player_id = KStr ''a'', e_name = PStr ''Ann'', e_score = 5\<rparr>]"
    by (simp add: tied_board_eq get_top_def ranked_def slice_to_def number_def)
  have f: "free tied_heap = 2" "heap tied_heap 0 = stored_obj \<lparr>score = 5, name = PStr ''Ann'', ts = Fin 1\<rparr>"
    "heap tied_heap (Suc 0) = stored_obj \<lparr>score = 5, name = PStr ''Bob'', ts = Fin 2\<rparr>"
    by (simp_all add: tied_heap_def)
  from reads_leave_engine [of 1 tied_board _ _ tied_heap] r
  have a: "(\<forall>a<2. heap (snd (get_top_h 1 tied_heap)) a = heap tied_heap a)"
    and b: "represents (snd (get_top_h 1 tied_heap)) tied_board"
    and c: "map (heap (snd (get_top_h 1 tied_heap))) [2] = map row_obj (fst (get_top 1 tied_board))"
    and d: "snd (get_top 1 tied_board) = tied_board"
    by (simp_all add: f(1) t)
  from a have "heap (snd (get_top_h 1 tied_heap)) 0 = heap tied_heap 0"
    "heap (snd (get_top_h 1 tied_heap)) 1 = heap tied_heap 1"
    by simp_all
  with r t b c d show ?thesis by (simp add: g f)
qed

end
